theory Spec2Isabelle
  imports Main "HOL-Library.AList" "HOL-Library.Char_ord" "HOL-Library.List_Lexorder"
begin

section \<open>Python values and exceptions\<close>

text \<open>
  The script \<^verbatim>\<open>run_ner.py\<close> is modelled function by function. Every exception the
  modelled statements can raise is a value of \<open>error\<close>; a computation that may raise
  returns \<open>error + 'a\<close>, with \<open>Inl\<close> for the exception. \<open>ValueError\<close> and
  \<open>AssertionError\<close> carry the message of the source.
\<close>

datatype error =
    IndexError
  | KeyError
  | AttributeError
  | ValueError string
  | AssertionError string

text \<open>\<^verbatim>\<open>xs[i]\<close> on a Python list: negative indices count from the end, anything else
  out of range raises \<^verbatim>\<open>IndexError\<close>.\<close>

definition list_getitem :: "'a list \<Rightarrow> int \<Rightarrow> error + 'a" where
  "list_getitem xs i =
     (if 0 \<le> i \<and> i < int (length xs) then Inr (xs ! nat i)
      else if - int (length xs) \<le> i \<and> i < 0 then Inr (xs ! nat (int (length xs) + i))
      else Inl IndexError)"

text \<open>\<^verbatim>\<open>d[k]\<close> on a Python dict: a missing key raises \<^verbatim>\<open>KeyError\<close>.\<close>

definition dict_getitem :: "('k \<rightharpoonup> 'v) \<Rightarrow> 'k \<Rightarrow> error + 'v" where
  "dict_getitem d k = (case d k of None \<Rightarrow> Inl KeyError | Some v \<Rightarrow> Inr v)"

section \<open>Label alignment: \<^verbatim>\<open>tokenize_and_align_labels\<close>\<close>

text \<open>
  The inner loop of \<^verbatim>\<open>tokenize_and_align_labels\<close> (lines 604 to 619) for one example:
  \<open>label\<close> is the example's tag list, the word-index list is what
  \<^verbatim>\<open>tokenized_inputs.word_ids(batch_index=i)\<close> returned (\<open>None\<close> for a special token),
  \<open>previous_word_idx\<close> and \<open>label_ids\<close> are the loop's two variables. The lookup
  \<^verbatim>\<open>label_to_id[label[word_idx]]\<close> is one list access and one dict access, and either
  may raise.
\<close>

definition label_of :: "('t \<rightharpoonup> int) \<Rightarrow> 't list \<Rightarrow> int \<Rightarrow> error + int" where
  "label_of label_to_id label word_idx =
     (case list_getitem label word_idx of
        Inl e \<Rightarrow> Inl e
      | Inr t \<Rightarrow> dict_getitem label_to_id t)"

fun align_loop ::
  "('t \<rightharpoonup> int) \<Rightarrow> bool \<Rightarrow> 't list \<Rightarrow> int option \<Rightarrow> int option list \<Rightarrow> int list
     \<Rightarrow> error + int list" where
  "align_loop label_to_id label_all_tokens label previous_word_idx [] label_ids =
     Inr label_ids"
| "align_loop label_to_id label_all_tokens label previous_word_idx (word_idx # word_ids) label_ids =
     (case word_idx of
        None \<Rightarrow>
          align_loop label_to_id label_all_tokens label word_idx word_ids (label_ids @ [- 100])
      | Some w \<Rightarrow>
          if word_idx \<noteq> previous_word_idx then
            (case label_of label_to_id label w of
               Inl e \<Rightarrow> Inl e
             | Inr l \<Rightarrow>
                 align_loop label_to_id label_all_tokens label word_idx word_ids (label_ids @ [l]))
          else if label_all_tokens then
            (case label_of label_to_id label w of
               Inl e \<Rightarrow> Inl e
             | Inr l \<Rightarrow>
                 align_loop label_to_id label_all_tokens label word_idx word_ids (label_ids @ [l]))
          else
            align_loop label_to_id label_all_tokens label word_idx word_ids (label_ids @ [- 100]))"

text \<open>
  The outer loop (lines 601 to 603 and 619): \<open>examples_labels\<close> is
  \<^verbatim>\<open>examples[label_column_name]\<close>, \<open>word_ids\<close> gives the word-index list of each batch
  index (the tokenizer is an external library, so its output is a parameter), \<open>i\<close> is
  the counter of \<^verbatim>\<open>enumerate\<close> and \<open>labels\<close> the list being appended to.
\<close>

fun align_batch ::
  "('t \<rightharpoonup> int) \<Rightarrow> bool \<Rightarrow> (nat \<Rightarrow> int option list) \<Rightarrow> nat \<Rightarrow> 't list list \<Rightarrow> int list list
     \<Rightarrow> error + int list list" where
  "align_batch label_to_id label_all_tokens word_ids i [] labels = Inr labels"
| "align_batch label_to_id label_all_tokens word_ids i (label # rest) labels =
     (case align_loop label_to_id label_all_tokens label None (word_ids i) [] of
        Inl e \<Rightarrow> Inl e
      | Inr label_ids \<Rightarrow>
          align_batch label_to_id label_all_tokens word_ids (Suc i) rest (labels @ [label_ids]))"

text \<open>The value stored under \<^verbatim>\<open>tokenized_inputs["labels"]\<close>.\<close>

definition tokenize_and_align_labels ::
  "('t \<rightharpoonup> int) \<Rightarrow> bool \<Rightarrow> (nat \<Rightarrow> int option list) \<Rightarrow> 't list list \<Rightarrow> error + int list list" where
  "tokenize_and_align_labels label_to_id label_all_tokens word_ids examples_labels =
     align_batch label_to_id label_all_tokens word_ids 0 examples_labels []"

text \<open>
  A word-index list is well formed for an example when every index that is not \<open>None\<close>
  points into the example's tag list and that tag has an id.
\<close>

definition word_ids_ok :: "('t \<rightharpoonup> int) \<Rightarrow> 't list \<Rightarrow> int option list \<Rightarrow> bool" where
  "word_ids_ok label_to_id label ws =
     list_all (\<lambda>word_idx. case word_idx of
                 None \<Rightarrow> True
               | Some w \<Rightarrow> 0 \<le> w \<and> w < int (length label) \<and> label_to_id (label ! nat w) \<noteq> None) ws"

text \<open>
  The alignment rule in the words of the specification, for one subword position with
  word index \<open>word_idx\<close> whose predecessor has word index \<open>previous_word_idx\<close>
  (\<open>None\<close> before the first position): the ignore value for a special token, the word's
  label id at the first piece of a word, and for a continuation piece the label id or the
  ignore value, as \<open>label_all_tokens\<close> says.
\<close>

definition spec_aligned_label ::
  "('t \<rightharpoonup> int) \<Rightarrow> bool \<Rightarrow> 't list \<Rightarrow> int option \<Rightarrow> int option \<Rightarrow> int" where
  "spec_aligned_label label_to_id label_all_tokens label previous_word_idx word_idx =
     (case word_idx of
        None \<Rightarrow> - 100
      | Some w \<Rightarrow>
          if word_idx \<noteq> previous_word_idx then the (label_to_id (label ! nat w))
          else if label_all_tokens then the (label_to_id (label ! nat w))
          else - 100)"

section \<open>Strings\<close>

text \<open>
  Strings are byte strings. \<^verbatim>\<open>s.split(".")\<close> never returns an empty list;
  \<^verbatim>\<open>s.lower()\<close> is modelled on the ASCII letters; \<^verbatim>\<open>sub in s\<close> is the substring test,
  written \<open>str_contains s sub\<close>, and \<open>startswith s p\<close> is \<^verbatim>\<open>s.startswith(p)\<close>.
\<close>

fun split_on :: "char \<Rightarrow> string \<Rightarrow> string list" where
  "split_on sep [] = [[]]"
| "split_on sep (c # cs) =
     (if c = sep then [] # split_on sep cs
      else (case split_on sep cs of
              [] \<Rightarrow> [[c]]
            | piece # pieces \<Rightarrow> (c # piece) # pieces))"

definition lower_char :: "char \<Rightarrow> char" where
  "lower_char c =
     (case map_of (zip ''ABCDEFGHIJKLMNOPQRSTUVWXYZ'' ''abcdefghijklmnopqrstuvwxyz'') c of
        None \<Rightarrow> c
      | Some l \<Rightarrow> l)"

definition lower :: "string \<Rightarrow> string" where
  "lower s = map lower_char s"

fun startswith :: "string \<Rightarrow> string \<Rightarrow> bool" where
  "startswith s [] = True"
| "startswith [] (p # ps) = False"
| "startswith (c # cs) (p # ps) = (c = p \<and> startswith cs ps)"

fun str_contains :: "string \<Rightarrow> string \<Rightarrow> bool" where
  "str_contains [] sub = (sub = [])"
| "str_contains (c # cs) sub = (startswith (c # cs) sub \<or> str_contains cs sub)"

text \<open>Truthiness of an optional string: \<^verbatim>\<open>None\<close> and the empty string are false.\<close>

definition truthy :: "string option \<Rightarrow> bool" where
  "truthy s = (case s of None \<Rightarrow> False | Some v \<Rightarrow> v \<noteq> [])"

text \<open>An optional string inside an f-string: \<^verbatim>\<open>None\<close> prints as its name.\<close>

definition format_str :: "string option \<Rightarrow> string" where
  "format_str s = (case s of None \<Rightarrow> ''None'' | Some v \<Rightarrow> v)"

section \<open>\<^verbatim>\<open>DataTrainingArguments\<close>\<close>

record data_args =
  task_name :: "string option"
  dataset_name :: "string option"
  dataset_config_name :: "string option"
  train_file :: "string option"
  validation_file :: "string option"
  test_file :: "string option"
  text_column_name :: "string option"
  label_column_name :: "string option"
  max_train_samples :: "int option"
  max_eval_samples :: "int option"
  max_predict_samples :: "int option"
  label_all_tokens :: bool
  return_entity_level_metrics :: bool

text \<open>
  Lines 230 and 231 (and 233 and 234): the text after the last dot of the file name, and
  the assertion on it. Assertions are taken as enabled.
\<close>

definition check_extension :: "string \<Rightarrow> string \<Rightarrow> error + unit" where
  "check_extension file message =
     (case list_getitem (split_on CHR ''.'' file) (- 1) of
        Inl e \<Rightarrow> Inl e
      | Inr extension \<Rightarrow>
          if extension \<in> set [''csv'', ''json''] then Inr ()
          else Inl (AssertionError message))"

text \<open>
  \<^verbatim>\<open>__post_init__\<close> (lines 225 to 235), with \<^verbatim>\<open>str.lower\<close> as the parameter
  \<open>str_lower\<close>.
\<close>

definition post_init_with :: "(string \<Rightarrow> string) \<Rightarrow> data_args \<Rightarrow> error + data_args" where
  "post_init_with str_lower self =
     (case
        (if dataset_name self = None \<and> train_file self = None \<and> validation_file self = None
         then Inl (ValueError ''Need either a dataset name or a training/validation file.'')
         else
           (case (case train_file self of
                    None \<Rightarrow> Inr ()
                  | Some f \<Rightarrow> check_extension f ''`train_file` should be a csv or a json file.'') of
              Inl e \<Rightarrow> Inl e
            | Inr _ \<Rightarrow>
                (case validation_file self of
                   None \<Rightarrow> Inr ()
                 | Some f \<Rightarrow>
                     check_extension f ''`validation_file` should be a csv or a json file.'')))
      of
        Inl e \<Rightarrow> Inl e
      | Inr _ \<Rightarrow>
          (case task_name self of
             None \<Rightarrow> Inl AttributeError
           | Some t \<Rightarrow> Inr (self\<lparr>task_name := Some (str_lower t)\<rparr>)))"

text \<open>\<^verbatim>\<open>__post_init__\<close> for task names in ASCII, where \<open>lower\<close> is \<^verbatim>\<open>str.lower\<close>.\<close>

definition post_init :: "data_args \<Rightarrow> error + data_args" where
  "post_init self = post_init_with lower self"

section \<open>Getting the datasets\<close>

text \<open>
  Lines 302 to 316 build the arguments of the one call of \<^verbatim>\<open>load_dataset\<close>: a dataset
  of the hub, or local files with the loader named by the extension of the training
  file. \<open>data_files\<close> is a dict, filled in the order of the source.
\<close>

datatype load_request =
    FromHub string "string option"
  | FromFiles string "(string \<times> string) list"

definition dataset_request :: "data_args \<Rightarrow> error + load_request" where
  "dataset_request data_args =
     (case dataset_name data_args of
        Some name \<Rightarrow> Inr (FromHub name (dataset_config_name data_args))
      | None \<Rightarrow>
          (let data_files = [];
               data_files = (case train_file data_args of
                               None \<Rightarrow> data_files
                             | Some f \<Rightarrow> AList.update ''train'' f data_files);
               data_files = (case validation_file data_args of
                               None \<Rightarrow> data_files
                             | Some f \<Rightarrow> AList.update ''validation'' f data_files);
               data_files = (case test_file data_args of
                               None \<Rightarrow> data_files
                             | Some f \<Rightarrow> AList.update ''test'' f data_files)
           in (case train_file data_args of
                 None \<Rightarrow> Inl AttributeError
               | Some f \<Rightarrow>
                   (case list_getitem (split_on CHR ''.'' f) (- 1) of
                      Inl e \<Rightarrow> Inl e
                    | Inr extension \<Rightarrow> Inr (FromFiles extension data_files)))))"

section \<open>Column name resolution\<close>

text \<open>Lines 327 to 339, on the column names of the split that line 321 or 324 chose.\<close>

definition resolve_text_column :: "data_args \<Rightarrow> string list \<Rightarrow> error + string" where
  "resolve_text_column data_args column_names =
     (case text_column_name data_args of
        Some name \<Rightarrow> Inr name
      | None \<Rightarrow>
          if ''tokens'' \<in> set column_names then Inr ''tokens''
          else list_getitem column_names 0)"

definition resolve_label_column :: "data_args \<Rightarrow> string list \<Rightarrow> error + string" where
  "resolve_label_column data_args column_names =
     (case label_column_name data_args of
        Some name \<Rightarrow> Inr name
      | None \<Rightarrow>
          if format_str (task_name data_args) @ ''_tags'' \<in> set column_names
          then Inr (format_str (task_name data_args) @ ''_tags'')
          else list_getitem column_names 1)"

definition resolve_columns :: "data_args \<Rightarrow> string list \<Rightarrow> error + string \<times> string" where
  "resolve_columns data_args column_names =
     (case resolve_text_column data_args column_names of
        Inl e \<Rightarrow> Inl e
      | Inr text_column \<Rightarrow>
          (case resolve_label_column data_args column_names of
             Inl e \<Rightarrow> Inl e
           | Inr label_column \<Rightarrow> Inr (text_column, label_column)))"

section \<open>Label vocabulary\<close>

text \<open>
  \<^verbatim>\<open>get_label_list\<close> (lines 343 to 349). \<^verbatim>\<open>list(unique_labels)\<close> lists a Python set in
  the interpreter's iteration order, which the language leaves open: it is the parameter
  \<open>set_order\<close>, and \<open>iteration_order\<close> says what every interpreter guarantees of it.
\<close>

definition iteration_order :: "('a set \<Rightarrow> 'a list) \<Rightarrow> bool" where
  "iteration_order set_order =
     (\<forall>S. finite S \<longrightarrow> set (set_order S) = S \<and> distinct (set_order S))"

definition get_label_list :: "('a::linorder set \<Rightarrow> 'a list) \<Rightarrow> 'a list list \<Rightarrow> 'a list" where
  "get_label_list set_order labels =
     (let unique_labels = fold (\<lambda>label unique_labels. unique_labels \<union> set label) labels {};
          label_list = set_order unique_labels
      in sort label_list)"

text \<open>Line 357: \<^verbatim>\<open>{l: i for i, l in enumerate(label_list)}\<close>; a later entry of a dict
  comprehension overwrites an earlier one with the same key.\<close>

definition label_to_id_of :: "'a list \<Rightarrow> ('a \<rightharpoonup> int)" where
  "label_to_id_of label_list =
     fold (\<lambda>(i, l) d. d(l \<mapsto> int i)) (enumerate 0 label_list) Map.empty"

text \<open>Line 354: \<^verbatim>\<open>{i: i for i in range(len(label_list))}\<close>.\<close>

definition identity_label_to_id :: "'b list \<Rightarrow> (int \<rightharpoonup> int)" where
  "identity_label_to_id label_list =
     fold (\<lambda>i d. d(int i \<mapsto> int i)) [0 ..< length label_list] Map.empty"

section \<open>Freezing the embedding sources\<close>

text \<open>
  Lines 447 to 449 and 513 to 515. \<^verbatim>\<open>model.bert.named_parameters()\<close> is a list of
  pairs of a name and a parameter object; an object is its address, and
  \<open>requires_grad\<close> is the store of the flags of all parameter objects.
\<close>

fun freeze_embeddings :: "(string \<times> nat) list \<Rightarrow> (nat \<Rightarrow> bool) \<Rightarrow> (nat \<Rightarrow> bool)" where
  "freeze_embeddings [] requires_grad = requires_grad"
| "freeze_embeddings (param # named_parameters) requires_grad =
     (if str_contains (fst param) ''embedding_''
      then freeze_embeddings named_parameters (requires_grad(snd param := False))
      else freeze_embeddings named_parameters requires_grad)"

section \<open>The metrics reducer: \<^verbatim>\<open>compute_metrics\<close>\<close>

text \<open>
  A list comprehension \<^verbatim>\<open>[f(x) for x in xs if c(x)]\<close> whose expression may raise: the
  elements are visited in order and the first exception ends the comprehension.
\<close>

fun comprehension :: "('a \<Rightarrow> bool) \<Rightarrow> ('a \<Rightarrow> error + 'b) \<Rightarrow> 'a list \<Rightarrow> error + 'b list" where
  "comprehension c f [] = Inr []"
| "comprehension c f (x # xs) =
     (if c x then
        (case f x of
           Inl e \<Rightarrow> Inl e
         | Inr y \<Rightarrow> (case comprehension c f xs of Inl e \<Rightarrow> Inl e | Inr ys \<Rightarrow> Inr (y # ys)))
      else comprehension c f xs)"

text \<open>
  Lines 689 to 696. \<open>predictions\<close> is the array after \<^verbatim>\<open>np.argmax\<close> (one label index
  per position; the arg-max of floating-point scores is not modelled), \<open>labels\<close> the
  gold label ids.
\<close>

definition true_predictions :: "'n list \<Rightarrow> int list list \<Rightarrow> int list list \<Rightarrow> error + 'n list list" where
  "true_predictions label_list predictions labels =
     comprehension (\<lambda>_. True)
       (\<lambda>(prediction, label).
          comprehension (\<lambda>(p, l). l \<noteq> - 100) (\<lambda>(p, l). list_getitem label_list p)
            (zip prediction label))
       (zip predictions labels)"

definition true_labels :: "'n list \<Rightarrow> int list list \<Rightarrow> int list list \<Rightarrow> error + 'n list list" where
  "true_labels label_list predictions labels =
     comprehension (\<lambda>_. True)
       (\<lambda>(prediction, label).
          comprehension (\<lambda>(p, l). l \<noteq> - 100) (\<lambda>(p, l). list_getitem label_list l)
            (zip prediction label))
       (zip predictions labels)"

text \<open>
  The scorer's result is a dict whose values are numbers or nested dicts of numbers
  (one per entity type). Dicts are association lists in insertion order, and
  \<^verbatim>\<open>d[k] = v\<close> is \<open>AList.update\<close>.
\<close>

datatype 'v metric_value = Scalar 'v | Nested "(string \<times> 'v) list"

text \<open>Line 704: the key \<^verbatim>\<open>f"{key}_{n}"\<close>.\<close>

definition flat_key :: "string \<Rightarrow> string \<Rightarrow> string" where
  "flat_key key n = key @ ''_'' @ n"

text \<open>Lines 700 to 707: the loop over \<^verbatim>\<open>results.items()\<close> with its inner loop.\<close>

fun unpack_nested ::
  "string \<Rightarrow> (string \<times> 'v) list \<Rightarrow> (string \<times> 'v metric_value) list
     \<Rightarrow> (string \<times> 'v metric_value) list" where
  "unpack_nested key [] final_results = final_results"
| "unpack_nested key ((n, v) # items) final_results =
     unpack_nested key items (AList.update (flat_key key n) (Scalar v) final_results)"

fun unpack_results ::
  "(string \<times> 'v metric_value) list \<Rightarrow> (string \<times> 'v metric_value) list
     \<Rightarrow> (string \<times> 'v metric_value) list" where
  "unpack_results [] final_results = final_results"
| "unpack_results ((key, value) # items) final_results =
     (case value of
        Nested d \<Rightarrow> unpack_results items (unpack_nested key d final_results)
      | Scalar x \<Rightarrow> unpack_results items (AList.update key (Scalar x) final_results))"

text \<open>Lines 709 to 714: the dict display evaluates its four lookups in order.\<close>

definition overall_results ::
  "(string \<times> 'v metric_value) list \<Rightarrow> error + (string \<times> 'v metric_value) list" where
  "overall_results results =
     (case dict_getitem (map_of results) ''overall_precision'' of
        Inl e \<Rightarrow> Inl e
      | Inr precision \<Rightarrow>
     (case dict_getitem (map_of results) ''overall_recall'' of
        Inl e \<Rightarrow> Inl e
      | Inr recall \<Rightarrow>
     (case dict_getitem (map_of results) ''overall_f1'' of
        Inl e \<Rightarrow> Inl e
      | Inr f1 \<Rightarrow>
     (case dict_getitem (map_of results) ''overall_accuracy'' of
        Inl e \<Rightarrow> Inl e
      | Inr accuracy \<Rightarrow>
          Inr (AList.update ''accuracy'' accuracy
                (AList.update ''f1'' f1
                  (AList.update ''recall'' recall
                    (AList.update ''precision'' precision []))))))))"

text \<open>
  \<^verbatim>\<open>compute_metrics\<close> (lines 684 to 714). The scorer \<^verbatim>\<open>metric.compute\<close> is loaded
  from outside the script and is the parameter \<open>metric_compute\<close>.
\<close>

definition compute_metrics ::
  "bool \<Rightarrow> 'n list \<Rightarrow> ('n list list \<Rightarrow> 'n list list \<Rightarrow> (string \<times> 'v metric_value) list)
     \<Rightarrow> int list list \<Rightarrow> int list list \<Rightarrow> error + (string \<times> 'v metric_value) list" where
  "compute_metrics return_entity_level label_list metric_compute predictions labels =
     (case true_predictions label_list predictions labels of
        Inl e \<Rightarrow> Inl e
      | Inr preds \<Rightarrow>
          (case true_labels label_list predictions labels of
             Inl e \<Rightarrow> Inl e
           | Inr refs \<Rightarrow>
               (let results = metric_compute preds refs
                in if return_entity_level then Inr (unpack_results results [])
                   else overall_results results)))"

section \<open>The run of \<^verbatim>\<open>main\<close> up to the preprocessed datasets\<close>

text \<open>
  \<^verbatim>\<open>main\<close> is modelled from its first line to line 676, where the three splits have been
  preprocessed. A run is the list of the calls it made into the libraries that load
  data and models and map a split, in order, and either the exception that ended it or
  its value. The calls that load data and models and the tokenizer are taken to
  succeed; what they return is read from \<open>env\<close>.
\<close>

datatype composer = MetaEmbed | MetaDomainEmbed

datatype event =
    LoadDataset load_request
  | LoadConfig
  | LoadTokenizer
  | LoadModel
  | LoadEmbedding nat
  | LoadSourceTokenizer nat
  | ReplaceEmbeddings composer
  | SetupAdapters
  | MapDataset string

type_synonym 'a run = "event list \<times> (error + 'a)"

definition succeed :: "'a \<Rightarrow> 'a run" where
  "succeed x = ([], Inr x)"

definition fail :: "error \<Rightarrow> 'a run" where
  "fail e = ([], Inl e)"

definition lift :: "error + 'a \<Rightarrow> 'a run" where
  "lift r = ([], r)"

definition emit :: "event list \<Rightarrow> unit run" where
  "emit events = (events, Inr ())"

definition then_run :: "'a run \<Rightarrow> ('a \<Rightarrow> 'b run) \<Rightarrow> 'b run" where
  "then_run r f =
     (case r of
        (events, Inl e) \<Rightarrow> (events, Inl e)
      | (events, Inr x) \<Rightarrow> (case f x of (events', y) \<Rightarrow> (events @ events', y)))"

record model_args =
  use_metaemb :: bool
  use_domain_metaemb :: bool
  model_name_or_path_3 :: "string option"
  model_name_or_path_4 :: "string option"
  model_name_or_path_5 :: "string option"
  model_name_or_path_6 :: "string option"

record training_args =
  output_dir :: string
  overwrite_output_dir :: bool
  do_train :: bool
  do_eval :: bool
  do_predict :: bool

record adapter_args =
  train_adapter :: bool
  load_adapter :: "string option"
  load_lang_adapter :: "string option"

text \<open>
  What \<^verbatim>\<open>features[column].feature\<close> is for a column: the declared names of a sequence
  of \<^verbatim>\<open>ClassLabel\<close>, another element type, or nothing, for a column that is not a
  sequence (reading the attribute then raises \<^verbatim>\<open>AttributeError\<close>).
\<close>

datatype feature = SequenceOfClassLabel "string list" | SequenceOfOther | NotSequence

text \<open>
  One split of the loaded \<^verbatim>\<open>DatasetDict\<close>: its column names, its \<^verbatim>\<open>features\<close>,
  its number of rows, and the value of each column in each row, read as a list of words
  and as a list of tags.
\<close>

record 't dataset =
  column_names :: "string list"
  features :: "string \<rightharpoonup> feature"
  num_rows :: nat
  token_column :: "string \<Rightarrow> nat \<Rightarrow> string list"
  tag_column :: "string \<Rightarrow> nat \<Rightarrow> 't list"

text \<open>
  What the run reads from outside the script: the output directory, the dataset library
  (\<open>load_dataset\<close>, and \<open>select_range n\<close> for \<^verbatim>\<open>dataset.select(range(n))\<close>, which may
  raise), the interpreter (\<open>str_lower\<close> for \<^verbatim>\<open>str.lower\<close>, the iteration order of
  sets, and \<open>tag_int\<close>, which reads a tag that is a Python \<^verbatim>\<open>int\<close>), the tokenizer
  (the word-index list it gives for the words of one example) and the parameters of the
  model.
\<close>

record 't env =
  output_dir_isdir :: bool
  output_dir_entries :: nat
  found_checkpoint :: "string option"
  str_lower :: "string \<Rightarrow> string"
  load_dataset :: "load_request \<Rightarrow> (string \<rightharpoonup> 't dataset)"
  select_range :: "int \<Rightarrow> 't dataset \<Rightarrow> error + 't dataset"
  set_iteration :: "'t set \<Rightarrow> 't list"
  tag_int :: "'t \<Rightarrow> int option"
  tokenizer_is_fast :: bool
  tokenizer_word_ids :: "string list \<Rightarrow> int option list"
  bert_named_parameters :: "composer \<Rightarrow> (string \<times> nat) list"
  initial_requires_grad :: "nat \<Rightarrow> bool"

text \<open>Lines 275 to 287.\<close>

definition detect_last_checkpoint :: "training_args \<Rightarrow> 't env \<Rightarrow> error + string option" where
  "detect_last_checkpoint training_args env =
     (if output_dir_isdir env \<and> do_train training_args \<and> \<not> overwrite_output_dir training_args
      then
        (let last_checkpoint = found_checkpoint env
         in if last_checkpoint = None \<and> output_dir_entries env > 0
            then Inl (ValueError (''Output directory ('' @ output_dir training_args
                   @ '') already exists and is not empty. Use --overwrite_output_dir to overcome.''))
            else Inr last_checkpoint)
      else Inr None)"

text \<open>
  Lines 351 to 358: \<^verbatim>\<open>label_list\<close>, declared by the column or scanned from the train
  split, and the \<^verbatim>\<open>label_to_id\<close> that goes with it. The keys of the identity mapping
  of line 354 are integers, so a tag has an entry there when it is an integer in range.
\<close>

datatype 't vocabulary = Declared "string list" | Scanned "'t list"

definition label_vocabulary ::
  "('t::linorder) env \<Rightarrow> (string \<rightharpoonup> 't dataset) \<Rightarrow> 't dataset \<Rightarrow> string \<Rightarrow> error + 't vocabulary" where
  "label_vocabulary env raw_datasets split label_column =
     (case dict_getitem (features split) label_column of
        Inl e \<Rightarrow> Inl e
      | Inr column_feature \<Rightarrow>
          (case column_feature of
             NotSequence \<Rightarrow> Inl AttributeError
           | SequenceOfClassLabel names \<Rightarrow> Inr (Declared names)
           | SequenceOfOther \<Rightarrow>
               (case dict_getitem raw_datasets ''train'' of
                  Inl e \<Rightarrow> Inl e
                | Inr train \<Rightarrow>
                    if label_column \<notin> set (column_names train) then Inl KeyError
                    else Inr (Scanned (get_label_list (set_iteration env)
                                         (map (tag_column train label_column)
                                            [0 ..< num_rows train]))))))"

definition vocabulary_label_to_id :: "'t env \<Rightarrow> 't vocabulary \<Rightarrow> ('t \<rightharpoonup> int)" where
  "vocabulary_label_to_id env vocabulary =
     (case vocabulary of
        Declared label_list \<Rightarrow>
          (\<lambda>t. case tag_int env t of
                 None \<Rightarrow> None
               | Some i \<Rightarrow> identity_label_to_id label_list i)
      | Scanned label_list \<Rightarrow> label_to_id_of label_list)"

text \<open>
  Lines 420 to 518. Sources 1 and 2 are always loaded, sources 3 to 6 when their path is
  given; the domain variant also loads one tokenizer per source. Then the embeddings of
  the model are replaced and the loop over the named parameters runs.
\<close>

definition embedding_sources :: "model_args \<Rightarrow> nat list" where
  "embedding_sources model_args =
     1 # 2 #
       (if model_name_or_path_3 model_args = None then [] else [3]) @
       (if model_name_or_path_4 model_args = None then [] else [4]) @
       (if model_name_or_path_5 model_args = None then [] else [5]) @
       (if model_name_or_path_6 model_args = None then [] else [6])"

definition setup_meta_embedding :: "model_args \<Rightarrow> 't env \<Rightarrow> (nat \<Rightarrow> bool) run" where
  "setup_meta_embedding model_args env =
     (if use_metaemb model_args then
        then_run (emit (map LoadEmbedding (embedding_sources model_args)
                        @ [ReplaceEmbeddings MetaEmbed]))
          (\<lambda>_. succeed (freeze_embeddings (bert_named_parameters env MetaEmbed)
                          (initial_requires_grad env)))
      else if use_domain_metaemb model_args then
        then_run (emit (map LoadEmbedding (embedding_sources model_args)
                        @ map LoadSourceTokenizer (embedding_sources model_args)
                        @ [ReplaceEmbeddings MetaDomainEmbed]))
          (\<lambda>_. succeed (freeze_embeddings (bert_named_parameters env MetaDomainEmbed)
                          (initial_requires_grad env)))
      else succeed (initial_requires_grad env))"

text \<open>Lines 521 to 575; what the adapter library does when adapters are trained is one event.\<close>

definition setup_adapters :: "adapter_args \<Rightarrow> unit run" where
  "setup_adapters adapter_args =
     (if train_adapter adapter_args then emit [SetupAdapters]
      else if truthy (load_adapter adapter_args) \<or> truthy (load_lang_adapter adapter_args)
      then fail (ValueError (''Adapters can only be loaded in adapters training mode.''
                   @ ''Use --train_adapter to enable adapter training''))
      else succeed ())"

text \<open>Lines 578 to 584.\<close>

definition tokenizer_check :: "'t env \<Rightarrow> unit run" where
  "tokenizer_check env =
     (if \<not> tokenizer_is_fast env
      then fail (ValueError (''This example script only works for models that have a fast tokenizer. Checkout the big table of models ''
                   @ ''at https://huggingface.co/transformers/index.html#supported-frameworks to find the model types that meet this ''
                   @ ''requirement''))
      else succeed ())"

text \<open>
  What the first part of \<^verbatim>\<open>main\<close> leaves for the rest: the constructed data
  arguments, the loaded splits, the two resolved column names, \<^verbatim>\<open>label_to_id\<close> and
  the store of the trainability flags.
\<close>

record 't prepared =
  s_args :: data_args
  s_datasets :: "string \<rightharpoonup> 't dataset"
  s_text_column :: string
  s_label_column :: string
  s_label_to_id :: "'t \<rightharpoonup> int"
  s_requires_grad :: "nat \<Rightarrow> bool"

text \<open>
  \<^verbatim>\<open>dataset.map(tokenize_and_align_labels, batched=True)\<close> (lines 640, 655 and 670).
  The library does not call the function on a split without rows. Otherwise the
  function reads the text column and then the label column of its batch (a
  \<^verbatim>\<open>KeyError\<close> when the split does not have it) and aligns the labels of the rows in
  order; the tokenizer gives each row the word-index list of its own words, so the
  cutting of the rows into batches does not show.
\<close>

definition map_tokenize_and_align ::
  "'t env \<Rightarrow> 't prepared \<Rightarrow> 't dataset \<Rightarrow> error + int list list" where
  "map_tokenize_and_align env s split =
     (if num_rows split = 0 then Inr []
      else if s_text_column s \<notin> set (column_names split) then Inl KeyError
      else if s_label_column s \<notin> set (column_names split) then Inl KeyError
      else tokenize_and_align_labels (s_label_to_id s) (label_all_tokens (s_args s))
             (\<lambda>i. tokenizer_word_ids env (token_column split (s_text_column s) i))
             (map (tag_column split (s_label_column s)) [0 ..< num_rows split]))"

text \<open>
  Lines 633 to 676, once for each of the three phases: the check that the split is
  there, the optional \<^verbatim>\<open>select(range(max_samples))\<close>, and the map, which runs
  \<open>tokenize_and_align_labels\<close> over the split before the next phase is looked at.
\<close>

definition preprocess_split ::
  "'t env \<Rightarrow> 't prepared \<Rightarrow> bool \<Rightarrow> string \<Rightarrow> string \<Rightarrow> int option \<Rightarrow> unit run" where
  "preprocess_split env s requested split message max_samples =
     (if requested then
        (case s_datasets s split of
           None \<Rightarrow> fail (ValueError message)
         | Some full \<Rightarrow>
             then_run (lift (case max_samples of
                               None \<Rightarrow> Inr full
                             | Some n \<Rightarrow> select_range env n full)) (\<lambda>selected.
             then_run (emit [MapDataset split]) (\<lambda>_.
             then_run (lift (map_tokenize_and_align env s selected)) (\<lambda>labels.
             succeed ()))))
      else succeed ())"

text \<open>
  The first part of \<^verbatim>\<open>main\<close>, lines 243 to 518: the arguments are parsed (which runs
  \<^verbatim>\<open>__post_init__\<close>), the datasets are loaded, the columns and the label vocabulary are
  found, the pretrained configuration, tokenizer and model are loaded, and the
  meta-embedding is set up.
\<close>

definition main_setup ::
  "model_args \<Rightarrow> data_args \<Rightarrow> training_args \<Rightarrow> ('t::linorder) env \<Rightarrow> 't prepared run" where
  "main_setup model_args parsed training_args env =
     then_run (lift (post_init_with (str_lower env) parsed)) (\<lambda>data_args.
     then_run (lift (detect_last_checkpoint training_args env)) (\<lambda>last_checkpoint.
     then_run (lift (dataset_request data_args)) (\<lambda>request.
     then_run (emit [LoadDataset request]) (\<lambda>_.
     then_run (lift (dict_getitem (load_dataset env request)
                       (if do_train training_args then ''train'' else ''validation''))) (\<lambda>split.
     then_run (lift (resolve_columns data_args (column_names split))) (\<lambda>columns.
     then_run (lift (label_vocabulary env (load_dataset env request) split (snd columns)))
       (\<lambda>vocabulary.
     then_run (emit [LoadConfig, LoadTokenizer, LoadModel]) (\<lambda>_.
     then_run (setup_meta_embedding model_args env) (\<lambda>requires_grad.
     succeed \<lparr>s_args = data_args,
              s_datasets = load_dataset env request,
              s_text_column = fst columns,
              s_label_column = snd columns,
              s_label_to_id = vocabulary_label_to_id env vocabulary,
              s_requires_grad = requires_grad\<rparr>)))))))))"

text \<open>
  \<^verbatim>\<open>main\<close> through line 676. Its value is the store of the trainability flags as the
  script's own loops leave it.
\<close>

definition main ::
  "model_args \<Rightarrow> data_args \<Rightarrow> training_args \<Rightarrow> adapter_args \<Rightarrow> ('t::linorder) env
     \<Rightarrow> (nat \<Rightarrow> bool) run" where
  "main model_args parsed training_args adapter_args env =
     then_run (main_setup model_args parsed training_args env) (\<lambda>s.
     then_run (setup_adapters adapter_args) (\<lambda>_.
     then_run (tokenizer_check env) (\<lambda>_.
     then_run (preprocess_split env s (do_train training_args) ''train''
                 ''--do_train requires a train dataset'' (max_train_samples (s_args s))) (\<lambda>_.
     then_run (preprocess_split env s (do_eval training_args) ''validation''
                 ''--do_eval requires a validation dataset'' (max_eval_samples (s_args s))) (\<lambda>_.
     then_run (preprocess_split env s (do_predict training_args) ''test''
                 ''--do_predict requires a test dataset'' (max_predict_samples (s_args s))) (\<lambda>_.
     succeed (s_requires_grad s)))))))"

section \<open>Preconditions and expected results\<close>

text \<open>
  The scorer's inputs are in range when, at every position whose gold label is not the
  ignore value, the predicted index and the gold label both point into \<open>label_list\<close>.
\<close>

definition indices_ok :: "'n list \<Rightarrow> int list list \<Rightarrow> int list list \<Rightarrow> bool" where
  "indices_ok label_list predictions labels =
     list_all (\<lambda>(prediction, label).
        list_all (\<lambda>(p, l). l = - 100 \<or>
                    (0 \<le> p \<and> p < int (length label_list) \<and> 0 \<le> l \<and> l < int (length label_list)))
          (zip prediction label))
       (zip predictions labels)"

text \<open>
  The exceptions that the first part of \<open>main\<close> can raise, before or after its library
  calls: any exception that is not a \<^verbatim>\<open>ValueError\<close>, and the two \<^verbatim>\<open>ValueError\<close>s of
  the missing dataset source and of the output directory.
\<close>

definition setup_error :: "error \<Rightarrow> bool" where
  "setup_error e =
     (case e of
        ValueError message \<Rightarrow>
          message = ''Need either a dataset name or a training/validation file.''
          \<or> startswith message ''Output directory (''
      | _ \<Rightarrow> True)"


section \<open>Example data\<close>

text \<open>
  The scenario of the specification: the words New, York, is, big with the tags B-LOC,
  I-LOC, O, O; York is split into two pieces, and one padding position follows.
\<close>

definition ex_label_to_id :: "string \<rightharpoonup> int" where
  "ex_label_to_id = [''B-LOC'' \<mapsto> 0, ''I-LOC'' \<mapsto> 1, ''O'' \<mapsto> 2]"

definition ex_tags :: "string list" where
  "ex_tags = [''B-LOC'', ''I-LOC'', ''O'', ''O'']"

definition ex_word_ids :: "int option list" where
  "ex_word_ids = [Some 0, Some 1, Some 1, Some 2, Some 3, None]"

text \<open>Predictions and gold labels of two examples, the second all padding, and a scorer
  result of the shape the sequence-tagging scorer returns (values in percent).\<close>

definition ex_label_list :: "string list" where
  "ex_label_list = [''B-LOC'', ''I-LOC'', ''O'']"

definition ex_predictions :: "int list list" where
  "ex_predictions = [[2, 0, 1, 2], [1, 1, 0, 2]]"

definition ex_labels :: "int list list" where
  "ex_labels = [[- 100, 0, 2, - 100], [- 100, - 100, - 100, - 100]]"

text \<open>A scorer whose result tells what it was given: the numbers of predicted and of
  reference labels, of examples, and of positions where the two agree.\<close>

definition ex_counting_scorer ::
  "string list list \<Rightarrow> string list list \<Rightarrow> (string \<times> nat metric_value) list" where
  "ex_counting_scorer preds refs =
     [(''overall_precision'', Scalar (length (concat preds))),
      (''overall_recall'', Scalar (length (concat refs))),
      (''overall_f1'', Scalar (length preds)),
      (''overall_accuracy'',
         Scalar (length (filter (\<lambda>(p, r). p = r) (zip (concat preds) (concat refs)))))]"


text \<open>Arguments and an environment for runs of \<open>main\<close>: a dataset with the conventional
  columns, a model whose parameters include two embedding sources.\<close>

definition ex_data_args :: data_args where
  "ex_data_args =
     \<lparr>task_name = Some ''ner'', dataset_name = None, dataset_config_name = None,
      train_file = None, validation_file = Some ''dev.json'', test_file = None,
      text_column_name = None, label_column_name = None,
      max_train_samples = None, max_eval_samples = None, max_predict_samples = None,
      label_all_tokens = False, return_entity_level_metrics = False\<rparr>"

definition ex_model_args :: model_args where
  "ex_model_args =
     \<lparr>use_metaemb = True, use_domain_metaemb = False,
      model_name_or_path_3 = None, model_name_or_path_4 = None,
      model_name_or_path_5 = None, model_name_or_path_6 = None\<rparr>"

definition ex_training_args :: training_args where
  "ex_training_args =
     \<lparr>output_dir = ''out'', overwrite_output_dir = False,
      do_train = True, do_eval = True, do_predict = True\<rparr>"

definition ex_adapter_args :: adapter_args where
  "ex_adapter_args = \<lparr>train_adapter = False, load_adapter = Some '''', load_lang_adapter = None\<rparr>"

definition ex_dataset :: "string dataset" where
  "ex_dataset =
     \<lparr>column_names = [''id'', ''tokens'', ''ner_tags''],
      features = [''id'' \<mapsto> NotSequence, ''tokens'' \<mapsto> SequenceOfOther,
                  ''ner_tags'' \<mapsto> SequenceOfOther],
      num_rows = 1,
      token_column = (\<lambda>c i. if c = ''tokens'' then [''New'', ''York'', ''is'', ''big''] else []),
      tag_column = (\<lambda>c i. if c = ''ner_tags'' then ex_tags else [])\<rparr>"

text \<open>A validation split with a tag that the train split does not have.\<close>

definition ex_unseen_tag_dataset :: "string dataset" where
  "ex_unseen_tag_dataset =
     ex_dataset\<lparr>tag_column := (\<lambda>c i. if c = ''ner_tags'' then [''B-ORG'', ''O'', ''O'', ''O''] else [])\<rparr>"

definition ex_parameters :: "(string \<times> nat) list" where
  "ex_parameters =
     [(''embeddings.embedding_1.word_embeddings.weight'', 0),
      (''embeddings.attention.weight'', 1),
      (''embeddings.embedding_2.word_embeddings.weight'', 2),
      (''encoder.layer.0.output.dense.weight'', 3)]"

definition ex_env :: "string env" where
  "ex_env =
     \<lparr>output_dir_isdir = False, output_dir_entries = 0, found_checkpoint = None,
      str_lower = lower,
      load_dataset = (\<lambda>request. case request of
          FromHub name config \<Rightarrow>
            [''train'' \<mapsto> ex_dataset, ''validation'' \<mapsto> ex_dataset, ''test'' \<mapsto> ex_dataset]
        | FromFiles extension data_files \<Rightarrow>
            map_of (map (\<lambda>(split, file).
                           (split, if file = ''unseen.json'' then ex_unseen_tag_dataset
                                   else ex_dataset)) data_files)),
      select_range = (\<lambda>n split. if n \<le> int (num_rows split)
                                  then Inr (split\<lparr>num_rows := nat n\<rparr>) else Inl IndexError),
      set_iteration = sorted_list_of_set,
      tag_int = (\<lambda>t. None),
      tokenizer_is_fast = True,
      tokenizer_word_ids = (\<lambda>ws. ex_word_ids),
      bert_named_parameters = (\<lambda>c. ex_parameters),
      initial_requires_grad = (\<lambda>p. True)\<rparr>"

text \<open>What the first part of \<open>main\<close> leaves in the example runs with local files.\<close>

definition ex_prepared :: "(string \<rightharpoonup> string dataset) \<Rightarrow> data_args \<Rightarrow> string prepared" where
  "ex_prepared splits args =
     \<lparr>s_args = args, s_datasets = splits,
      s_text_column = ''tokens'', s_label_column = ''ner_tags'',
      s_label_to_id = label_to_id_of [''B-LOC'', ''I-LOC'', ''O''],
      s_requires_grad = freeze_embeddings ex_parameters (\<lambda>p. True)\<rparr>"

section \<open>Label alignment: proofs\<close>

lemma ex_word_ids_ok: "word_ids_ok ex_label_to_id ex_tags ex_word_ids"
  by (simp add: word_ids_ok_def ex_label_to_id_def ex_tags_def ex_word_ids_def)

lemma label_of_ok:
  "0 \<le> w \<Longrightarrow> w < int (length label) \<Longrightarrow> label_to_id (label ! nat w) = Some l
     \<Longrightarrow> label_of label_to_id label w = Inr l"
  by (simp add: label_of_def list_getitem_def dict_getitem_def)

lemma align_loop_ok:
  "word_ids_ok label_to_id label ws \<Longrightarrow>
     \<exists>ls. align_loop label_to_id all label prev ws acc = Inr (acc @ ls)
        \<and> length ls = length ws
        \<and> (\<forall>i<length ws. ls ! i =
              spec_aligned_label label_to_id all label ((prev # ws) ! i) (ws ! i))"
proof (induction ws arbitrary: prev acc)
  case Nil
  then show ?case by simp
next
  case (Cons word_idx ws)
  from Cons.prems have rest: "word_ids_ok label_to_id label ws"
    by (simp add: word_ids_ok_def)
  define x where "x = spec_aligned_label label_to_id all label prev word_idx"
  have step: "align_loop label_to_id all label prev (word_idx # ws) acc
                = align_loop label_to_id all label word_idx ws (acc @ [x])"
  proof (cases word_idx)
    case None
    then show ?thesis by (simp add: x_def spec_aligned_label_def)
  next
    case (Some w)
    with Cons.prems obtain l where
      "0 \<le> w" "w < int (length label)" "label_to_id (label ! nat w) = Some l"
      by (auto simp: word_ids_ok_def)
    then have "label_of label_to_id label w = Inr l" "the (label_to_id (label ! nat w)) = l"
      by (simp_all add: label_of_ok)
    with Some show ?thesis by (simp add: x_def spec_aligned_label_def)
  qed
  from Cons.IH [OF rest, of word_idx "acc @ [x]"] obtain ls where
    ls: "align_loop label_to_id all label word_idx ws (acc @ [x]) = Inr ((acc @ [x]) @ ls)"
        "length ls = length ws"
        "\<forall>i<length ws. ls ! i =
            spec_aligned_label label_to_id all label ((word_idx # ws) ! i) (ws ! i)"
    by blast
  have "\<forall>i<length (word_idx # ws). (x # ls) ! i =
          spec_aligned_label label_to_id all label ((prev # word_idx # ws) ! i) ((word_idx # ws) ! i)"
  proof (intro allI impI)
    fix i assume "i < length (word_idx # ws)"
    then show "(x # ls) ! i =
          spec_aligned_label label_to_id all label ((prev # word_idx # ws) ! i) ((word_idx # ws) ! i)"
      using ls(3) by (cases i) (simp_all add: x_def)
  qed
  with step ls(1,2) show ?case
    by (intro exI [of _ "x # ls"]) simp
qed

lemma align_batch_ok:
  "\<forall>k<length batch. word_ids_ok label_to_id (batch ! k) (word_ids (i + k)) \<Longrightarrow>
     \<exists>ls. align_batch label_to_id all word_ids i batch acc = Inr (acc @ ls)
        \<and> length ls = length batch
        \<and> (\<forall>k<length batch.
              align_loop label_to_id all (batch ! k) None (word_ids (i + k)) [] = Inr (ls ! k))"
proof (induction batch arbitrary: i acc)
  case Nil
  then show ?case by simp
next
  case (Cons label rest)
  from Cons.prems have "word_ids_ok label_to_id label (word_ids i)"
    by force
  from align_loop_ok [OF this, of all None "[]"] obtain label_ids where
    l: "align_loop label_to_id all label None (word_ids i) [] = Inr label_ids"
    by auto
  have "\<forall>k<length rest. word_ids_ok label_to_id (rest ! k) (word_ids (Suc i + k))"
  proof (intro allI impI)
    fix k assume "k < length rest"
    then have "Suc k < length (label # rest)" by simp
    with Cons.prems have "word_ids_ok label_to_id ((label # rest) ! Suc k) (word_ids (i + Suc k))"
      by blast
    then show "word_ids_ok label_to_id (rest ! k) (word_ids (Suc i + k))" by simp
  qed
  from Cons.IH [OF this, of "acc @ [label_ids]"] obtain ls where
    ls: "align_batch label_to_id all word_ids (Suc i) rest (acc @ [label_ids])
           = Inr ((acc @ [label_ids]) @ ls)"
        "length ls = length rest"
        "\<forall>k<length rest.
            align_loop label_to_id all (rest ! k) None (word_ids (Suc i + k)) [] = Inr (ls ! k)"
    by blast
  have "\<forall>k<length (label # rest).
          align_loop label_to_id all ((label # rest) ! k) None (word_ids (i + k)) []
            = Inr ((label_ids # ls) ! k)"
  proof (intro allI impI)
    fix k assume "k < length (label # rest)"
    then show "align_loop label_to_id all ((label # rest) ! k) None (word_ids (i + k)) []
                 = Inr ((label_ids # ls) ! k)"
      using l ls(3) by (cases k) simp_all
  qed
  with l ls(1,2) show ?case
    by (intro exI [of _ "label_ids # ls"]) simp
qed

text \<open>
  Claim C1. For a batch in which every word index of every example points into that
  example's tag list and at a tag that has an id, \<open>tokenize_and_align_labels\<close> returns
  one label list per example and one label per subword position, in subword order. The
  label at a position is \<open>spec_aligned_label\<close> of the position's word index and the
  word index of the position before it (\<open>None\<close> at the first position): the ignore
  value \<open>- 100\<close> for a special token, the id of the word's tag where the word index
  differs from the previous one, and on a continuation piece the id of the word's tag
  when all tokens are labelled and \<open>- 100\<close> otherwise.
\<close>

theorem tokenize_and_align_labels_one_label_per_subword:
  assumes "\<forall>k<length examples_labels.
             word_ids_ok label_to_id (examples_labels ! k) (word_ids k)"
  shows "\<exists>labels.
           tokenize_and_align_labels label_to_id all_tokens word_ids examples_labels
             = Inr labels
         \<and> length labels = length examples_labels
         \<and> (\<forall>k<length examples_labels.
              length (labels ! k) = length (word_ids k)
            \<and> (\<forall>j<length (word_ids k).
                 labels ! k ! j =
                   spec_aligned_label label_to_id all_tokens (examples_labels ! k)
                     (if j = 0 then None else word_ids k ! (j - 1)) (word_ids k ! j)))"
proof -
  from assms have "\<forall>k<length examples_labels.
      word_ids_ok label_to_id (examples_labels ! k) (word_ids (0 + k))" by simp
  from align_batch_ok [OF this, of all_tokens "[]"] obtain labels where
    labels: "tokenize_and_align_labels label_to_id all_tokens word_ids examples_labels
               = Inr labels"
      "length labels = length examples_labels"
      "\<forall>k<length examples_labels.
          align_loop label_to_id all_tokens (examples_labels ! k) None (word_ids k) []
            = Inr (labels ! k)"
    by (auto simp: tokenize_and_align_labels_def)
  have "length (labels ! k) = length (word_ids k)
      \<and> (\<forall>j<length (word_ids k).
            labels ! k ! j =
              spec_aligned_label label_to_id all_tokens (examples_labels ! k)
                (if j = 0 then None else word_ids k ! (j - 1)) (word_ids k ! j))"
    if k: "k < length examples_labels" for k
  proof -
    from assms k have "word_ids_ok label_to_id (examples_labels ! k) (word_ids k)" by blast
    from align_loop_ok [OF this, of all_tokens None "[]"] labels(3) k
    have len: "length (labels ! k) = length (word_ids k)"
      and at: "\<forall>j<length (word_ids k). labels ! k ! j =
                 spec_aligned_label label_to_id all_tokens (examples_labels ! k)
                   ((None # word_ids k) ! j) (word_ids k ! j)"
      by auto
    have "(None # word_ids k) ! j = (if j = 0 then None else word_ids k ! (j - 1))" for j
      by (cases j) simp_all
    with len at show ?thesis by simp
  qed
  with labels(1,2) show ?thesis by blast
qed

text \<open>
  Claim C2. Let \<open>W\<close> be a word-index list whose entries are \<open>None\<close> or point into the
  tag list at a tag that has an id; the entries need not be contiguous. At a position
  \<open>i\<close> that is the first occurrence of its word index \<open>w\<close> in \<open>W\<close>, the aligned label
  is the id of the tag of word \<open>w\<close>, whatever the labelling policy.
\<close>

theorem first_occurrence_gets_word_label:
  assumes ok: "word_ids_ok label_to_id label W"
    and i: "i < length W"
    and w: "W ! i = Some w"
    and first: "\<forall>j<i. W ! j \<noteq> Some w"
  shows "\<exists>label_ids.
           align_loop label_to_id all_tokens label None W [] = Inr label_ids
         \<and> length label_ids = length W
         \<and> 0 \<le> w \<and> w < int (length label)
         \<and> label_to_id (label ! nat w) = Some (label_ids ! i)"
proof -
  from align_loop_ok [OF ok, of all_tokens None "[]"] obtain ls where
    ls: "align_loop label_to_id all_tokens label None W [] = Inr ls"
        "length ls = length W"
        "\<forall>i<length W. ls ! i =
            spec_aligned_label label_to_id all_tokens label ((None # W) ! i) (W ! i)"
    by auto
  have prev: "(None # W) ! i \<noteq> Some w"
  proof (cases i)
    case 0
    then show ?thesis by simp
  next
    case (Suc j)
    with first show ?thesis by simp
  qed
  from ok i w obtain l where
    l: "0 \<le> w" "w < int (length label)" "label_to_id (label ! nat w) = Some l"
    by (auto simp: word_ids_ok_def list_all_length split: option.splits)
  from ls(3) i w prev have "ls ! i = the (label_to_id (label ! nat w))"
    by (simp add: spec_aligned_label_def)
  with l ls(1,2) show ?thesis by simp
qed


theorem tokenize_and_align_labels_one_label_per_subword_witness:
  "word_ids_ok ex_label_to_id ex_tags ex_word_ids
   \<and> (\<exists>labels.
         tokenize_and_align_labels ex_label_to_id False (\<lambda>k. ex_word_ids) [ex_tags] = Inr labels
       \<and> length labels = 1
       \<and> length (labels ! 0) = 6
       \<and> labels ! 0 ! 2 = - 100
       \<and> labels ! 0 ! 3 = 2)"
proof -
  have h: "\<forall>k<length [ex_tags]. word_ids_ok ex_label_to_id ([ex_tags] ! k) ex_word_ids"
    using ex_word_ids_ok by simp
  from tokenize_and_align_labels_one_label_per_subword [OF h, of False]
  obtain labels where
    l: "tokenize_and_align_labels ex_label_to_id False (\<lambda>k. ex_word_ids) [ex_tags] = Inr labels"
       "length labels = length [ex_tags]"
       "\<forall>k<length [ex_tags].
          length (labels ! k) = length ex_word_ids
        \<and> (\<forall>j<length ex_word_ids.
             labels ! k ! j =
               spec_aligned_label ex_label_to_id False ([ex_tags] ! k)
                 (if j = 0 then None else ex_word_ids ! (j - 1)) (ex_word_ids ! j))"
    by blast
  from l(3) have len: "length (labels ! 0) = length ex_word_ids"
    and at: "\<forall>j<length ex_word_ids.
               labels ! 0 ! j =
                 spec_aligned_label ex_label_to_id False ex_tags
                   (if j = 0 then None else ex_word_ids ! (j - 1)) (ex_word_ids ! j)"
    by simp_all
  from at have "labels ! 0 ! 2 = - 100" "labels ! 0 ! 3 = 2"
    by (simp_all add: ex_word_ids_def ex_tags_def ex_label_to_id_def spec_aligned_label_def)
  with ex_word_ids_ok l(1,2) len show ?thesis
    by (simp add: ex_word_ids_def)
qed

theorem first_occurrence_gets_word_label_witness:
  "word_ids_ok ex_label_to_id ex_tags ex_word_ids
   \<and> 4 < length ex_word_ids \<and> ex_word_ids ! 4 = Some 3
   \<and> (\<exists>label_ids.
         align_loop ex_label_to_id True ex_tags None ex_word_ids [] = Inr label_ids
       \<and> length label_ids = length ex_word_ids
       \<and> ex_label_to_id (ex_tags ! nat 3) = Some (label_ids ! 4))"
proof -
  have i: "4 < length ex_word_ids" and w: "ex_word_ids ! 4 = Some 3"
    by (simp_all add: ex_word_ids_def)
  have first: "\<forall>j<4. ex_word_ids ! j \<noteq> Some 3"
  proof (intro allI impI)
    fix j :: nat assume "j < 4"
    then have "j = 0 \<or> j = 1 \<or> j = 2 \<or> j = 3" by arith
    then show "ex_word_ids ! j \<noteq> Some 3"
      by (auto simp: ex_word_ids_def)
  qed
  from first_occurrence_gets_word_label [OF ex_word_ids_ok i w first, of True]
  show ?thesis using ex_word_ids_ok i w first by blast
qed

section \<open>Label vocabulary: proofs\<close>

lemma fold_union_labels:
  "fold (\<lambda>label unique_labels. unique_labels \<union> set label) labels S = S \<union> \<Union>(set ` set labels)"
  by (induction labels arbitrary: S) auto

lemma sort_iteration_order:
  assumes "iteration_order order" "finite S"
  shows "sort (order S) = sorted_list_of_set S"
proof -
  from assms have "set (order S) = S" "distinct (order S)"
    by (auto simp: iteration_order_def)
  then have "sorted_list_of_set S = sort (remdups (order S))"
    using sorted_list_of_set_sort_remdups [of "order S"] by simp
  with \<open>distinct (order S)\<close> show ?thesis by (simp add: distinct_remdups_id)
qed

lemma get_label_list_eq:
  assumes "iteration_order order"
  shows "get_label_list order labels = sorted_list_of_set (\<Union>(set ` set labels))"
proof -
  have "finite (\<Union>(set ` set labels))" by simp
  from sort_iteration_order [OF assms this] show ?thesis
    by (simp add: get_label_list_def fold_union_labels)
qed

lemma fold_enumerate_notin:
  "t \<notin> set xs \<Longrightarrow> fold (\<lambda>(i, l) d. d(l \<mapsto> int i)) (enumerate k xs) m t = m t"
  by (induction xs arbitrary: k m) auto

lemma fold_enumerate_at:
  "distinct xs \<Longrightarrow> n < length xs \<Longrightarrow>
     fold (\<lambda>(i, l) d. d(l \<mapsto> int i)) (enumerate k xs) m (xs ! n) = Some (int (k + n))"
proof (induction xs arbitrary: k m n)
  case Nil
  then show ?case by simp
next
  case (Cons x xs)
  show ?case
  proof (cases n)
    case 0
    from Cons.prems have "x \<notin> set xs" by simp
    from fold_enumerate_notin [OF this, of "Suc k" "m(x \<mapsto> int k)"] 0 show ?thesis
      by (simp del: fun_upd_apply) simp
  next
    case (Suc j)
    with Cons.prems Cons.IH [of j "Suc k" "m(x \<mapsto> int k)"] show ?thesis by simp
  qed
qed

lemma label_to_id_of_iff:
  assumes "distinct xs"
  shows "label_to_id_of xs t = Some i \<longleftrightarrow> (0 \<le> i \<and> i < int (length xs) \<and> xs ! nat i = t)"
proof
  assume a: "label_to_id_of xs t = Some i"
  then have "t \<in> set xs"
    using fold_enumerate_notin [of t xs 0 Map.empty] by (auto simp: label_to_id_of_def)
  then obtain n where n: "n < length xs" "xs ! n = t" by (auto simp: in_set_conv_nth)
  with fold_enumerate_at [OF assms n(1), of 0 Map.empty] a have "i = int n"
    by (simp add: label_to_id_of_def)
  with n show "0 \<le> i \<and> i < int (length xs) \<and> xs ! nat i = t" by simp
next
  assume "0 \<le> i \<and> i < int (length xs) \<and> xs ! nat i = t"
  then have "nat i < length xs" "xs ! nat i = t" "int (nat i) = i" by auto
  with fold_enumerate_at [OF assms, of "nat i" 0 Map.empty] show "label_to_id_of xs t = Some i"
    by (simp add: label_to_id_of_def)
qed

text \<open>
  Claim C3. Whatever order the interpreter lists a set in, \<open>get_label_list\<close> returns the
  sorted list of the distinct tags of all label sequences (for strings the order is the
  lexicographic one), and \<open>label_to_id_of\<close> maps each tag to its index in that list
  and nothing else. So two runs, under any two iteration orders, give the same list,
  and running the builder on its own result gives that result again.
\<close>

theorem get_label_list_sorted_stable:
  assumes "iteration_order order1" and "iteration_order order2"
  shows "get_label_list order1 labels = sorted_list_of_set (\<Union>(set ` set labels))
       \<and> sorted (get_label_list order1 labels)
       \<and> distinct (get_label_list order1 labels)
       \<and> set (get_label_list order1 labels) = \<Union>(set ` set labels)
       \<and> get_label_list order2 labels = get_label_list order1 labels
       \<and> get_label_list order2 [get_label_list order1 labels] = get_label_list order1 labels
       \<and> (\<forall>t i. label_to_id_of (get_label_list order1 labels) t = Some i \<longleftrightarrow>
             (0 \<le> i \<and> i < int (length (get_label_list order1 labels))
              \<and> get_label_list order1 labels ! nat i = t))"
proof -
  let ?U = "\<Union>(set ` set labels)"
  have fin: "finite ?U" by simp
  have e1: "get_label_list order1 labels = sorted_list_of_set ?U"
    by (rule get_label_list_eq [OF assms(1)])
  have e2: "get_label_list order2 labels = sorted_list_of_set ?U"
    by (rule get_label_list_eq [OF assms(2)])
  have d: "distinct (get_label_list order1 labels)" using e1 by simp
  have again: "get_label_list order2 [sorted_list_of_set ?U] = sorted_list_of_set ?U"
    using get_label_list_eq [OF assms(2), of "[sorted_list_of_set ?U]"] fin
    by (simp add: sorted_list_of_set.idem_if_sorted_distinct)
  from e1 e2 d again fin label_to_id_of_iff [OF d] show ?thesis
    by simp
qed

lemma ex_order: "iteration_order (\<lambda>S::string set. rev (sorted_list_of_set S))"
  by (simp add: iteration_order_def)

lemma ex_order2: "iteration_order (\<lambda>S::string set. sorted_list_of_set S)"
  by (simp add: iteration_order_def)

lemma ex_sorted: "sorted_list_of_set (\<Union>(set ` set [[''O'', ''B-LOC''], [''I-LOC'', ''O'']])) = [''B-LOC'', ''I-LOC'', ''O'']"
  by code_simp

theorem get_label_list_sorted_stable_witness:
  "iteration_order (\<lambda>S::string set. rev (sorted_list_of_set S))
   \<and> iteration_order (\<lambda>S::string set. sorted_list_of_set S)
   \<and> get_label_list (\<lambda>S. rev (sorted_list_of_set S)) [[''O'', ''B-LOC''], [''I-LOC'', ''O'']]
       = [''B-LOC'', ''I-LOC'', ''O'']
   \<and> label_to_id_of (get_label_list (\<lambda>S. rev (sorted_list_of_set S))
        [[''O'', ''B-LOC''], [''I-LOC'', ''O'']]) ''O'' = Some 2"
proof -
  let ?g = "get_label_list (\<lambda>S. rev (sorted_list_of_set S)) [[''O'', ''B-LOC''], [''I-LOC'', ''O'']]"
  from get_label_list_sorted_stable [OF ex_order ex_order2, of "[[''O'', ''B-LOC''], [''I-LOC'', ''O'']]"]
  have eq: "?g = sorted_list_of_set (\<Union>(set ` set [[''O'', ''B-LOC''], [''I-LOC'', ''O'']]))"
    and iff: "\<forall>t i. label_to_id_of ?g t = Some i \<longleftrightarrow> (0 \<le> i \<and> i < int (length ?g) \<and> ?g ! nat i = t)"
    by blast+
  from eq have g: "?g = [''B-LOC'', ''I-LOC'', ''O'']" by (simp only: ex_sorted)
  from iff have "label_to_id_of ?g ''O'' = Some 2 \<longleftrightarrow> (0 \<le> (2::int) \<and> 2 < int (length ?g) \<and> ?g ! nat 2 = ''O'')"
    by blast
  then have "label_to_id_of ?g ''O'' = Some 2" by (simp add: g)
  with g ex_order ex_order2 show ?thesis by simp
qed

section \<open>Column name resolution: proofs\<close>



section \<open>Freezing the embedding sources: proofs\<close>

lemma startswith_iff: "startswith s p \<longleftrightarrow> (\<exists>post. s = p @ post)"
  by (induction s p rule: startswith.induct) auto

lemma str_contains_iff: "str_contains s sub \<longleftrightarrow> (\<exists>pre post. s = pre @ sub @ post)"
proof (induction s)
  case Nil
  then show ?case by auto
next
  case (Cons c cs)
  show ?case
  proof
    assume "str_contains (c # cs) sub"
    then consider "startswith (c # cs) sub" | "str_contains cs sub" by auto
    then show "\<exists>pre post. c # cs = pre @ sub @ post"
    proof cases
      case 1
      then obtain post where "c # cs = [] @ sub @ post" by (auto simp: startswith_iff)
      then show ?thesis by blast
    next
      case 2
      with Cons.IH obtain pre post where "cs = pre @ sub @ post" by blast
      then have "c # cs = (c # pre) @ sub @ post" by simp
      then show ?thesis by blast
    qed
  next
    assume "\<exists>pre post. c # cs = pre @ sub @ post"
    then obtain pre post where e: "c # cs = pre @ sub @ post" by blast
    show "str_contains (c # cs) sub"
    proof (cases pre)
      case Nil
      with e have "startswith (c # cs) sub" by (auto simp: startswith_iff)
      then show ?thesis by simp
    next
      case (Cons p pre')
      with e have "cs = pre' @ sub @ post" by simp
      with Cons.IH have "str_contains cs sub" by blast
      then show ?thesis by simp
    qed
  qed
qed

lemma freeze_embeddings_apply:
  "freeze_embeddings params rg p \<longleftrightarrow>
     rg p \<and> \<not> (\<exists>name. (name, p) \<in> set params \<and> str_contains name ''embedding_'')"
  by (induction params arbitrary: rg) auto

lemma distinct_snd_unique:
  "distinct (map snd ps) \<Longrightarrow> (b, p) \<in> set ps \<Longrightarrow> (a, p) \<in> set ps \<Longrightarrow> a = b"
  by (induction ps) (auto simp: image_iff)

text \<open>
  Claim C7. After the meta-embedding setup of either composer variant, every named
  parameter of \<open>model.bert\<close> whose name contains \<open>embedding_\<close> has its flag
  \<open>requires_grad\<close> false, and every other flag is what it was: those of the named
  parameters whose name does not match, and those of all parameters outside
  \<open>model.bert\<close>. The named parameters are distinct objects, as the library lists
  each parameter once.
\<close>

theorem freeze_decided_by_name:
  assumes variant: "use_metaemb m \<or> use_domain_metaemb m"
    and c: "c = (if use_metaemb m then MetaEmbed else MetaDomainEmbed)"
    and dist: "distinct (map snd (bert_named_parameters env c))"
  shows "\<exists>events rg.
           setup_meta_embedding m env = (events, Inr rg)
         \<and> (\<forall>(name, p) \<in> set (bert_named_parameters env c).
              rg p = (if \<exists>pre post. name = pre @ ''embedding_'' @ post then False
                      else initial_requires_grad env p))
         \<and> (\<forall>p. p \<notin> snd ` set (bert_named_parameters env c) \<longrightarrow> rg p = initial_requires_grad env p)"
proof -
  let ?ps = "bert_named_parameters env c"
  let ?rg = "freeze_embeddings ?ps (initial_requires_grad env)"
  have "\<exists>events. setup_meta_embedding m env = (events, Inr ?rg)"
  proof (cases "use_metaemb m")
    case True
    with c show ?thesis
      by (simp add: setup_meta_embedding_def then_run_def emit_def succeed_def)
  next
    case False
    with variant c show ?thesis
      by (simp add: setup_meta_embedding_def then_run_def emit_def succeed_def)
  qed
  then obtain events where run: "setup_meta_embedding m env = (events, Inr ?rg)" ..
  have named: "?rg p = (if \<exists>pre post. name = pre @ ''embedding_'' @ post then False
                        else initial_requires_grad env p)"
    if "(name, p) \<in> set ?ps" for name p
  proof -
    from dist that have "name' = name" if "(name', p) \<in> set ?ps" for name'
      using that by (rule distinct_snd_unique)
    with that have "(\<exists>n. (n, p) \<in> set ?ps \<and> str_contains n ''embedding_'')
                      \<longleftrightarrow> str_contains name ''embedding_''" by blast
    then show ?thesis
      unfolding freeze_embeddings_apply str_contains_iff by auto
  qed
  have other: "?rg p = initial_requires_grad env p" if "p \<notin> snd ` set ?ps" for p
  proof -
    from that have "\<not> (\<exists>n. (n, p) \<in> set ?ps \<and> str_contains n ''embedding_'')" by force
    then show ?thesis
      unfolding freeze_embeddings_apply by blast
  qed
  from run named other show ?thesis by blast
qed

theorem freeze_decided_by_name_witness:
  "\<exists>events rg.
     setup_meta_embedding ex_model_args ex_env = (events, Inr rg)
   \<and> \<not> rg 0 \<and> rg 1 \<and> \<not> rg 2 \<and> rg 3 \<and> rg 4"
proof -
  have variant: "use_metaemb ex_model_args \<or> use_domain_metaemb ex_model_args"
    and c: "MetaEmbed = (if use_metaemb ex_model_args then MetaEmbed else MetaDomainEmbed)"
    by (simp_all add: ex_model_args_def)
  have ps: "bert_named_parameters ex_env MetaEmbed = ex_parameters"
    "initial_requires_grad ex_env = (\<lambda>p. True)"
    by (simp_all add: ex_env_def)
  have dist: "distinct (map snd (bert_named_parameters ex_env MetaEmbed))"
    by (simp add: ps ex_parameters_def)
  from freeze_decided_by_name [OF variant c dist] obtain events rg where
    run: "setup_meta_embedding ex_model_args ex_env = (events, Inr rg)"
    and named: "\<forall>(name, p) \<in> set ex_parameters.
                  rg p = (if \<exists>pre post. name = pre @ ''embedding_'' @ post then False else True)"
    and other: "\<forall>p. p \<notin> snd ` set ex_parameters \<longrightarrow> rg p = True"
    unfolding ps by blast
  from named have "\<not> rg 0 \<and> rg 1 \<and> \<not> rg 2 \<and> rg 3"
    unfolding str_contains_iff [symmetric] by (simp add: ex_parameters_def)
  moreover from other have "rg 4" by (simp add: ex_parameters_def)
  ultimately show ?thesis using run by blast
qed

section \<open>Configuration checks and dataset loading: proofs\<close>

text \<open>
  Claim C9. \<open>post_init\<close> checks the extension of the training file and of the
  validation file, and never looks at \<open>test_file\<close>: with a test file named
  \<open>test.txt\<close> the construction succeeds.
\<close>

theorem test_file_extension_not_checked:
  "post_init (ex_data_args\<lparr>train_file := Some ''train.json'', test_file := Some ''test.txt''\<rparr>)
     = Inr (ex_data_args\<lparr>train_file := Some ''train.json'', test_file := Some ''test.txt''\<rparr>)"
  by (simp add: post_init_def post_init_with_def ex_data_args_def check_extension_def
      list_getitem_def lower_def lower_char_def)

lemma then_run_lift_Inl [simp]: "then_run (lift (Inl e)) f = ([], Inl e)"
  by (simp add: then_run_def lift_def)

lemma then_run_lift_Inr [simp]: "then_run (lift (Inr x)) f = f x"
  by (simp add: then_run_def lift_def split: prod.splits)

lemma then_run_Inl [simp]: "then_run (events, Inl e) f = (events, Inl e)"
  by (simp add: then_run_def)

lemma then_run_Inr [simp]:
  "then_run (events, Inr x) f = (events @ fst (f x), snd (f x))"
  by (simp add: then_run_def split: prod.splits)

lemma then_run_emit [simp]: "then_run (emit events) f = (events @ fst (f ()), snd (f ()))"
  by (simp add: emit_def)

text \<open>Whether the construction succeeds does not depend on the lowering of the task name.\<close>

lemma post_init_with_Inr:
  "post_init_with f d = Inr d' \<Longrightarrow> \<exists>task. d' = d\<lparr>task_name := Some task\<rparr>"
  by (auto simp: post_init_with_def split: if_splits sum.splits option.splits)

lemma post_init_with_any_lower:
  "post_init_with f d = Inr d' \<Longrightarrow> \<exists>d''. post_init_with g d = Inr d''"
  by (auto simp: post_init_with_def split: if_splits sum.splits option.splits)

text \<open>
  Claim C10. With no dataset name, no training file and a validation file, for arguments
  that pass \<open>post_init\<close>, the local-file path reads the extension of \<open>train_file\<close>,
  which is \<open>None\<close>: building the request raises \<^verbatim>\<open>AttributeError\<close>, and \<open>main\<close> ends
  with an exception before any dataset is loaded (that exception, unless the check of
  the output directory raised first).
\<close>

theorem validation_only_fails_on_train_file:
  assumes "dataset_name d = None" and "train_file d = None" and "validation_file d = Some v"
    and ok: "post_init d = Inr d'"
  shows "dataset_request d' = Inl AttributeError
       \<and> main m d t a env =
           ([], Inl (case detect_last_checkpoint t env of Inl e \<Rightarrow> e | Inr _ \<Rightarrow> AttributeError))"
proof -
  from ok have ok': "post_init_with lower d = Inr d'"
    by (simp add: post_init_def)
  from post_init_with_Inr [OF ok'] obtain task where d': "d' = d\<lparr>task_name := Some task\<rparr>" ..
  with assms have req: "dataset_request d' = Inl AttributeError"
    by (simp add: dataset_request_def)
  from post_init_with_any_lower [OF ok'] obtain d'' where
    run: "post_init_with (str_lower env) d = Inr d''" ..
  from post_init_with_Inr [OF run] obtain task' where "d'' = d\<lparr>task_name := Some task'\<rparr>" ..
  with assms have req': "dataset_request d'' = Inl AttributeError"
    by (simp add: dataset_request_def)
  have "main_setup m d t env =
          ([], Inl (case detect_last_checkpoint t env of Inl e \<Rightarrow> e | Inr _ \<Rightarrow> AttributeError))"
    by (cases "detect_last_checkpoint t env") (simp_all add: main_setup_def run req')
  with req show ?thesis by (simp add: main_def)
qed

theorem validation_only_fails_on_train_file_witness:
  "post_init ex_data_args = Inr ex_data_args
   \<and> dataset_request ex_data_args = Inl AttributeError
   \<and> main ex_model_args ex_data_args ex_training_args ex_adapter_args ex_env
       = ([], Inl AttributeError)"
proof -
  have ok: "post_init ex_data_args = Inr ex_data_args"
    by (simp add: post_init_def post_init_with_def ex_data_args_def check_extension_def
        list_getitem_def lower_def lower_char_def)
  have given: "dataset_name ex_data_args = None" "train_file ex_data_args = None"
    "validation_file ex_data_args = Some ''dev.json''"
    by (simp_all add: ex_data_args_def)
  have dir: "detect_last_checkpoint ex_training_args ex_env = Inr None"
    by (simp add: detect_last_checkpoint_def ex_env_def)
  from validation_only_fails_on_train_file
         [OF given ok, of ex_model_args ex_training_args ex_adapter_args ex_env]
  show ?thesis using ok dir by simp
qed

section \<open>Configuration errors and model loading: proofs\<close>

lemmas run_defs = then_run_def lift_def emit_def succeed_def fail_def
lemmas ex_defs = ex_data_args_def ex_model_args_def ex_training_args_def ex_adapter_args_def
  ex_dataset_def ex_unseen_tag_dataset_def ex_env_def
lemmas stage_defs = post_init_with_def check_extension_def list_getitem_def dict_getitem_def
  lower_def lower_char_def detect_last_checkpoint_def dataset_request_def
  resolve_columns_def resolve_text_column_def resolve_label_column_def format_str_def
  label_vocabulary_def setup_meta_embedding_def embedding_sources_def
  setup_adapters_def truthy_def tokenizer_check_def preprocess_split_def

text \<open>
  Claim C8, as stated, fails: adapter loading is requested without adapter training, on a
  dataset of the hub that has all three splits. The run loads the dataset, the
  configuration, the tokenizer, the model and two embedding sources, and only then
  raises the error of the adapter check.
\<close>

theorem adapter_error_after_model_loading:
  "main ex_model_args (ex_data_args\<lparr>dataset_name := Some ''conll2003''\<rparr>) ex_training_args
     (ex_adapter_args\<lparr>load_adapter := Some ''ner/adapter''\<rparr>) ex_env
   = ([LoadDataset (FromHub ''conll2003'' None), LoadConfig, LoadTokenizer, LoadModel,
       LoadEmbedding 1, LoadEmbedding 2, ReplaceEmbeddings MetaEmbed],
      Inl (ValueError ''Adapters can only be loaded in adapters training mode.Use --train_adapter to enable adapter training''))"
  by (simp add: main_def main_setup_def run_defs ex_defs stage_defs)

lemma setup_meta_embedding_succeeds: "\<exists>events rg. setup_meta_embedding m env = (events, Inr rg)"
  by (simp add: setup_meta_embedding_def succeed_def)

lemma list_getitem_Inl: "list_getitem xs i = Inl e \<Longrightarrow> e = IndexError"
  by (auto simp: list_getitem_def split: if_splits)

lemma dict_getitem_Inl: "dict_getitem d k = Inl e \<Longrightarrow> e = KeyError"
  by (auto simp: dict_getitem_def split: option.splits)

lemma post_init_with_Inl: "post_init_with f d = Inl e \<Longrightarrow> setup_error e"
  by (auto simp: post_init_with_def check_extension_def setup_error_def
      split: if_splits sum.splits option.splits dest!: list_getitem_Inl)

lemma detect_last_checkpoint_Inl: "detect_last_checkpoint t env = Inl e \<Longrightarrow> setup_error e"
  by (auto simp: detect_last_checkpoint_def setup_error_def Let_def split: if_splits)

lemma dataset_request_Inl: "dataset_request d = Inl e \<Longrightarrow> setup_error e"
  by (auto simp: dataset_request_def setup_error_def Let_def
      split: option.splits sum.splits dest!: list_getitem_Inl)

lemma resolve_columns_Inl: "resolve_columns d cols = Inl e \<Longrightarrow> setup_error e"
  by (auto simp: resolve_columns_def resolve_text_column_def resolve_label_column_def
      setup_error_def split: option.splits sum.splits if_splits dest!: list_getitem_Inl)

lemma label_vocabulary_Inl: "label_vocabulary env raw split c = Inl e \<Longrightarrow> setup_error e"
  by (auto simp: label_vocabulary_def setup_error_def
      split: option.splits sum.splits if_splits feature.splits dest!: dict_getitem_Inl)

text \<open>
  The first part of \<open>main\<close> ends in one of three ways: with an exception of
  \<open>setup_error\<close>, raised before the model is loaded, or with its value, after the
  model has been loaded.
\<close>

lemma main_setup_cases:
  obtains (early) events e where
      "main_setup m d t env = (events, Inl e)" "setup_error e" "LoadModel \<notin> set events"
    | (loaded) events s where
      "main_setup m d t env = (events, Inr s)" "LoadModel \<in> set events"
proof -
  let ?early = "\<exists>events e. main_setup m d t env = (events, Inl e) \<and> setup_error e
                  \<and> LoadModel \<notin> set events"
  let ?loaded = "\<exists>events s. main_setup m d t env = (events, Inr s) \<and> LoadModel \<in> set events"
  have "?early \<or> ?loaded"
  proof (cases "post_init_with (str_lower env) d")
    case (Inl e)
    with post_init_with_Inl [OF Inl] show ?thesis by (simp add: main_setup_def)
  next
    case 1: (Inr d')
    show ?thesis
    proof (cases "detect_last_checkpoint t env")
      case (Inl e)
      with 1 detect_last_checkpoint_Inl [OF Inl] show ?thesis by (simp add: main_setup_def)
    next
      case 2: (Inr c)
      show ?thesis
      proof (cases "dataset_request d'")
        case (Inl e)
        with 1 2 dataset_request_Inl [OF Inl] show ?thesis by (simp add: main_setup_def)
      next
        case 3: (Inr request)
        let ?raw = "load_dataset env request"
        let ?split = "if do_train t then ''train'' else ''validation''"
        show ?thesis
        proof (cases "dict_getitem ?raw ?split")
          case (Inl e)
          with dict_getitem_Inl [OF Inl] have "setup_error e"
            by (simp add: setup_error_def)
          with 1 2 3 Inl show ?thesis by (simp add: main_setup_def)
        next
          case 4: (Inr ds)
          show ?thesis
          proof (cases "resolve_columns d' (column_names ds)")
            case (Inl e)
            with 1 2 3 4 resolve_columns_Inl [OF Inl] show ?thesis
              by (simp add: main_setup_def)
          next
            case 5: (Inr cols)
            show ?thesis
            proof (cases "label_vocabulary env ?raw ds (snd cols)")
              case (Inl e)
              with 1 2 3 4 5 label_vocabulary_Inl [OF Inl] show ?thesis
                by (simp add: main_setup_def)
            next
              case 6: (Inr vocab)
              obtain ev rg where 7: "setup_meta_embedding m env = (ev, Inr rg)"
                using setup_meta_embedding_succeeds by blast
              with 1 2 3 4 5 6 have ?loaded
                by (simp add: main_setup_def succeed_def)
              then show ?thesis ..
            qed
          qed
        qed
      qed
    qed
  qed
  with early loaded show thesis by blast
qed

text \<open>
  Claim C8, amended. The missing dataset source is raised by \<^verbatim>\<open>__post_init__\<close>, before
  anything is loaded. The other errors are never raised before the pretrained model has
  been loaded: a run that ends with the error of the adapter check, of the validation
  split or of the test split has loaded the model. Each of them is raised with its
  message when the run reaches its check. After the first part of \<open>main\<close> has
  succeeded, adapter loading without adapter training ends the run with the adapter
  error. When the adapters are set up, the tokenizer is fast and the preprocessing of
  the train phase has succeeded, a missing validation split under \<open>do_eval\<close> ends the
  run with the error of that phase; when the preprocessing of the validation phase has
  succeeded as well, a missing test split under \<open>do_predict\<close> ends it with the error
  of that phase.
\<close>

theorem configuration_errors:
  "(dataset_name d = None \<and> train_file d = None \<and> validation_file d = None \<longrightarrow>
      main m d t a env =
        ([], Inl (ValueError ''Need either a dataset name or a training/validation file.'')))
   \<and> (\<forall>events message.
        main m d t a env = (events, Inl (ValueError message))
        \<and> message \<in> set [''Adapters can only be loaded in adapters training mode.''
                             @ ''Use --train_adapter to enable adapter training'',
                           ''--do_eval requires a validation dataset'',
                           ''--do_predict requires a test dataset'']
        \<longrightarrow> LoadModel \<in> set events)
   \<and> (\<forall>events s.
        main_setup m d t env = (events, Inr s) \<longrightarrow>
          (\<not> train_adapter a \<and> (truthy (load_adapter a) \<or> truthy (load_lang_adapter a)) \<longrightarrow>
             main m d t a env =
               (events, Inl (ValueError (''Adapters can only be loaded in adapters training mode.''
                                          @ ''Use --train_adapter to enable adapter training''))))
        \<and> (\<forall>events2 events3.
             setup_adapters a = (events2, Inr ()) \<and> tokenizer_is_fast env
             \<and> preprocess_split env s (do_train t) ''train''
                 ''--do_train requires a train dataset'' (max_train_samples (s_args s))
               = (events3, Inr ()) \<longrightarrow>
               (do_eval t \<and> s_datasets s ''validation'' = None \<longrightarrow>
                  main m d t a env =
                    (events @ events2 @ events3,
                     Inl (ValueError ''--do_eval requires a validation dataset'')))
             \<and> (\<forall>events4.
                  preprocess_split env s (do_eval t) ''validation''
                    ''--do_eval requires a validation dataset'' (max_eval_samples (s_args s))
                    = (events4, Inr ())
                  \<and> do_predict t \<and> s_datasets s ''test'' = None \<longrightarrow>
                  main m d t a env =
                    (events @ events2 @ events3 @ events4,
                     Inl (ValueError ''--do_predict requires a test dataset'')))))"
proof (intro conjI allI impI)
  assume "dataset_name d = None \<and> train_file d = None \<and> validation_file d = None"
  then have "post_init_with (str_lower env) d
               = Inl (ValueError ''Need either a dataset name or a training/validation file.'')"
    by (simp add: post_init_with_def)
  then show "main m d t a env =
        ([], Inl (ValueError ''Need either a dataset name or a training/validation file.''))"
    by (simp add: main_def main_setup_def)
next
  fix events message
  assume a: "main m d t a env = (events, Inl (ValueError message))
        \<and> message \<in> set [''Adapters can only be loaded in adapters training mode.''
                             @ ''Use --train_adapter to enable adapter training'',
                           ''--do_eval requires a validation dataset'',
                           ''--do_predict requires a test dataset'']"
  then have late: "\<not> setup_error (ValueError message)"
    by (auto simp: setup_error_def)
  show "LoadModel \<in> set events"
  proof (rule main_setup_cases [of m d t env])
    fix ev e
    assume "main_setup m d t env = (ev, Inl e)" "setup_error e"
    with a late show ?thesis by (simp add: main_def)
  next
    fix ev s
    assume "main_setup m d t env = (ev, Inr s)" "LoadModel \<in> set ev"
    with a show ?thesis by (auto simp: main_def)
  qed
next
  fix events s
  assume s: "main_setup m d t env = (events, Inr s)"
    and "\<not> train_adapter a \<and> (truthy (load_adapter a) \<or> truthy (load_lang_adapter a))"
  then have "setup_adapters a = ([], Inl (ValueError (''Adapters can only be loaded in adapters training mode.''
                                          @ ''Use --train_adapter to enable adapter training'')))"
    by (simp add: setup_adapters_def fail_def)
  with s show "main m d t a env =
               (events, Inl (ValueError (''Adapters can only be loaded in adapters training mode.''
                                          @ ''Use --train_adapter to enable adapter training'')))"
    by (simp add: main_def)
next
  fix events s events2 events3
  assume s: "main_setup m d t env = (events, Inr s)"
    and a: "setup_adapters a = (events2, Inr ()) \<and> tokenizer_is_fast env
             \<and> preprocess_split env s (do_train t) ''train''
                 ''--do_train requires a train dataset'' (max_train_samples (s_args s))
               = (events3, Inr ())"
    and e: "do_eval t \<and> s_datasets s ''validation'' = None"
  from e have "preprocess_split env s (do_eval t) ''validation''
                 ''--do_eval requires a validation dataset'' (max_eval_samples (s_args s))
               = ([], Inl (ValueError ''--do_eval requires a validation dataset''))"
    by (simp add: preprocess_split_def fail_def)
  with s a show "main m d t a env =
                    (events @ events2 @ events3,
                     Inl (ValueError ''--do_eval requires a validation dataset''))"
    by (simp add: main_def tokenizer_check_def succeed_def)
next
  fix events s events2 events3 events4
  assume s: "main_setup m d t env = (events, Inr s)"
    and a: "setup_adapters a = (events2, Inr ()) \<and> tokenizer_is_fast env
             \<and> preprocess_split env s (do_train t) ''train''
                 ''--do_train requires a train dataset'' (max_train_samples (s_args s))
               = (events3, Inr ())"
    and p: "preprocess_split env s (do_eval t) ''validation''
                    ''--do_eval requires a validation dataset'' (max_eval_samples (s_args s))
                    = (events4, Inr ())
                  \<and> do_predict t \<and> s_datasets s ''test'' = None"
  from p have "preprocess_split env s (do_predict t) ''test''
                 ''--do_predict requires a test dataset'' (max_predict_samples (s_args s))
               = ([], Inl (ValueError ''--do_predict requires a test dataset''))"
    by (simp add: preprocess_split_def fail_def)
  with s a p show "main m d t a env =
                    (events @ events2 @ events3 @ events4,
                     Inl (ValueError ''--do_predict requires a test dataset''))"
    by (simp add: main_def tokenizer_check_def succeed_def)
qed

lemma ex_vocabulary:
  "get_label_list sorted_list_of_set [ex_tags] = [''B-LOC'', ''I-LOC'', ''O'']"
  unfolding get_label_list_def ex_tags_def by code_simp

lemma ex_map_train:
  "tokenize_and_align_labels (label_to_id_of [''B-LOC'', ''I-LOC'', ''O'']) False
     (\<lambda>i. ex_word_ids) [ex_tags] = Inr [[0, 1, - 100, 2, 2, - 100]]"
  by (simp add: tokenize_and_align_labels_def label_to_id_of_def ex_tags_def ex_word_ids_def
      label_of_def list_getitem_def dict_getitem_def)

lemma ex_map_unseen:
  "tokenize_and_align_labels (label_to_id_of [''B-LOC'', ''I-LOC'', ''O'']) False
     (\<lambda>i. ex_word_ids) [[''B-ORG'', ''O'', ''O'', ''O'']] = Inl KeyError"
  by (simp add: tokenize_and_align_labels_def label_to_id_of_def ex_word_ids_def
      label_of_def list_getitem_def dict_getitem_def)

lemma ex_main_setup:
  assumes "v \<in> {None, Some ''dev.json'', Some ''unseen.json''}"
  shows "main_setup ex_model_args (ex_data_args\<lparr>train_file := Some ''train.json'', validation_file := v\<rparr>)
      ex_training_args ex_env
    = ([LoadDataset (FromFiles ''json''
          ((''train'', ''train.json'') # (case v of None \<Rightarrow> [] | Some file \<Rightarrow> [(''validation'', file)]))),
        LoadConfig, LoadTokenizer, LoadModel,
        LoadEmbedding 1, LoadEmbedding 2, ReplaceEmbeddings MetaEmbed],
       Inr (ex_prepared
              (case v of None \<Rightarrow> [''train'' \<mapsto> ex_dataset]
               | Some file \<Rightarrow> [''train'' \<mapsto> ex_dataset,
                    ''validation'' \<mapsto> (if file = ''unseen.json'' then ex_unseen_tag_dataset else ex_dataset)])
              (ex_data_args\<lparr>train_file := Some ''train.json'', validation_file := v\<rparr>)))"
  using assms
  by (auto simp: main_setup_def run_defs stage_defs ex_data_args_def ex_model_args_def
      ex_training_args_def ex_env_def ex_dataset_def ex_unseen_tag_dataset_def ex_prepared_def
      vocabulary_label_to_id_def ex_vocabulary fun_eq_iff)

lemma ex_prepared_samples:
  "max_train_samples (s_args (ex_prepared splits (ex_data_args\<lparr>train_file := f, validation_file := v\<rparr>))) = None"
  "max_eval_samples (s_args (ex_prepared splits (ex_data_args\<lparr>train_file := f, validation_file := v\<rparr>))) = None"
  "max_predict_samples (s_args (ex_prepared splits (ex_data_args\<lparr>train_file := f, validation_file := v\<rparr>))) = None"
  "s_datasets (ex_prepared splits args) = splits"
  by (simp_all add: ex_prepared_def ex_data_args_def)

lemma ex_flags:
  "do_train ex_training_args" "do_eval ex_training_args" "do_predict ex_training_args"
  "tokenizer_is_fast ex_env" "setup_adapters ex_adapter_args = ([], Inr ())"
  by (simp_all add: ex_training_args_def ex_env_def setup_adapters_def ex_adapter_args_def
      truthy_def succeed_def)

lemma ex_preprocess:
  assumes "splits split = Some ex_dataset"
  shows "preprocess_split ex_env (ex_prepared splits (ex_data_args\<lparr>train_file := f, validation_file := v\<rparr>))
           True split message None
         = ([MapDataset split], Inr ())"
  using assms
  by (simp add: preprocess_split_def map_tokenize_and_align_def ex_prepared_def run_defs
      ex_dataset_def ex_env_def ex_data_args_def ex_map_train)

lemma ex_preprocess_unseen:
  assumes "splits split = Some ex_unseen_tag_dataset"
  shows "preprocess_split ex_env (ex_prepared splits (ex_data_args\<lparr>train_file := f, validation_file := v\<rparr>))
           True split message None
         = ([MapDataset split], Inl KeyError)"
  using assms
  by (simp add: preprocess_split_def map_tokenize_and_align_def ex_prepared_def run_defs
      ex_dataset_def ex_unseen_tag_dataset_def ex_env_def ex_data_args_def ex_map_unseen)

text \<open>
  A validation split with a tag that the train split does not have: the map of the
  validation phase raises \<^verbatim>\<open>KeyError\<close> (line 613), and the check of the test split is
  not reached.
\<close>

lemma unseen_tag_ends_validation_phase:
  "main ex_model_args
     (ex_data_args\<lparr>train_file := Some ''train.json'', validation_file := Some ''unseen.json''\<rparr>)
     ex_training_args ex_adapter_args ex_env
   = ([LoadDataset (FromFiles ''json'' [(''train'', ''train.json''), (''validation'', ''unseen.json'')]),
       LoadConfig, LoadTokenizer, LoadModel,
       LoadEmbedding 1, LoadEmbedding 2, ReplaceEmbeddings MetaEmbed,
       MapDataset ''train'', MapDataset ''validation''],
      Inl KeyError)"
  using ex_main_setup [of "Some ''unseen.json''"]
  by (simp add: main_def ex_preprocess ex_preprocess_unseen ex_prepared_samples ex_flags
      tokenizer_check_def succeed_def)

theorem configuration_errors_witness:
  "main ex_model_args (ex_data_args\<lparr>validation_file := None\<rparr>) ex_training_args
     ex_adapter_args ex_env
     = ([], Inl (ValueError ''Need either a dataset name or a training/validation file.''))
   \<and> main ex_model_args (ex_data_args\<lparr>train_file := Some ''train.json''\<rparr>) ex_training_args
       (ex_adapter_args\<lparr>load_lang_adapter := Some ''en/wiki''\<rparr>) ex_env
     = ([LoadDataset (FromFiles ''json'' [(''train'', ''train.json''), (''validation'', ''dev.json'')]),
         LoadConfig, LoadTokenizer, LoadModel,
         LoadEmbedding 1, LoadEmbedding 2, ReplaceEmbeddings MetaEmbed],
        Inl (ValueError (''Adapters can only be loaded in adapters training mode.''
                          @ ''Use --train_adapter to enable adapter training'')))
   \<and> main ex_model_args (ex_data_args\<lparr>train_file := Some ''train.json'', validation_file := None\<rparr>)
       ex_training_args ex_adapter_args ex_env
     = ([LoadDataset (FromFiles ''json'' [(''train'', ''train.json'')]),
         LoadConfig, LoadTokenizer, LoadModel,
         LoadEmbedding 1, LoadEmbedding 2, ReplaceEmbeddings MetaEmbed, MapDataset ''train''],
        Inl (ValueError ''--do_eval requires a validation dataset''))
   \<and> main ex_model_args (ex_data_args\<lparr>train_file := Some ''train.json''\<rparr>)
       ex_training_args ex_adapter_args ex_env
     = ([LoadDataset (FromFiles ''json'' [(''train'', ''train.json''), (''validation'', ''dev.json'')]),
         LoadConfig, LoadTokenizer, LoadModel,
         LoadEmbedding 1, LoadEmbedding 2, ReplaceEmbeddings MetaEmbed,
         MapDataset ''train'', MapDataset ''validation''],
        Inl (ValueError ''--do_predict requires a test dataset''))
   \<and> LoadModel \<in> set (fst (main ex_model_args (ex_data_args\<lparr>train_file := Some ''train.json''\<rparr>)
                             ex_training_args ex_adapter_args ex_env))"
proof -
  let ?none = "ex_data_args\<lparr>validation_file := None\<rparr>"
  let ?both = "ex_data_args\<lparr>train_file := Some ''train.json'', validation_file := Some ''dev.json''\<rparr>"
  let ?train = "ex_data_args\<lparr>train_file := Some ''train.json'', validation_file := None\<rparr>"
  let ?lang = "ex_adapter_args\<lparr>load_lang_adapter := Some ''en/wiki''\<rparr>"
  let ?loaded = "[LoadConfig, LoadTokenizer, LoadModel,
                  LoadEmbedding 1, LoadEmbedding 2, ReplaceEmbeddings MetaEmbed]"
  let ?s_both = "ex_prepared [''train'' \<mapsto> ex_dataset, ''validation'' \<mapsto> ex_dataset] ?both"
  let ?s_train = "ex_prepared [''train'' \<mapsto> ex_dataset] ?train"
  have same: "ex_data_args\<lparr>train_file := Some ''train.json''\<rparr> = ?both"
    by (simp add: ex_data_args_def)
  have none: "dataset_name ?none = None \<and> train_file ?none = None \<and> validation_file ?none = None"
    by (simp add: ex_data_args_def)
  have both: "main_setup ex_model_args ?both ex_training_args ex_env
      = (LoadDataset (FromFiles ''json'' [(''train'', ''train.json''), (''validation'', ''dev.json'')])
           # ?loaded, Inr ?s_both)"
    using ex_main_setup [of "Some ''dev.json''"] by simp
  have train: "main_setup ex_model_args ?train ex_training_args ex_env
      = (LoadDataset (FromFiles ''json'' [(''train'', ''train.json'')]) # ?loaded, Inr ?s_train)"
    using ex_main_setup [of None] by simp
  have lang: "\<not> train_adapter ?lang \<and> (truthy (load_adapter ?lang) \<or> truthy (load_lang_adapter ?lang))"
    by (simp add: ex_adapter_args_def truthy_def)
  have adapters_train: "setup_adapters ex_adapter_args = ([], Inr ()) \<and> tokenizer_is_fast ex_env
      \<and> preprocess_split ex_env ?s_train (do_train ex_training_args) ''train''
          ''--do_train requires a train dataset'' (max_train_samples (s_args ?s_train))
        = ([MapDataset ''train''], Inr ())"
    by (simp add: ex_flags ex_prepared_samples ex_preprocess)
  have adapters_both: "setup_adapters ex_adapter_args = ([], Inr ()) \<and> tokenizer_is_fast ex_env
      \<and> preprocess_split ex_env ?s_both (do_train ex_training_args) ''train''
          ''--do_train requires a train dataset'' (max_train_samples (s_args ?s_both))
        = ([MapDataset ''train''], Inr ())"
    by (simp add: ex_flags ex_prepared_samples ex_preprocess)
  have eval: "do_eval ex_training_args \<and> s_datasets ?s_train ''validation'' = None"
    by (simp add: ex_flags ex_prepared_samples)
  have predict: "preprocess_split ex_env ?s_both (do_eval ex_training_args) ''validation''
          ''--do_eval requires a validation dataset'' (max_eval_samples (s_args ?s_both))
        = ([MapDataset ''validation''], Inr ())
      \<and> do_predict ex_training_args \<and> s_datasets ?s_both ''test'' = None"
    by (simp add: ex_flags ex_prepared_samples ex_preprocess)
  note at_none = configuration_errors [of ?none ex_model_args ex_training_args ex_adapter_args ex_env]
  note at_lang = configuration_errors [of ?both ex_model_args ex_training_args ?lang ex_env]
  note at_train = configuration_errors [of ?train ex_model_args ex_training_args ex_adapter_args ex_env]
  note at_both = configuration_errors [of ?both ex_model_args ex_training_args ex_adapter_args ex_env]
  from at_none none
  have 1: "main ex_model_args ?none ex_training_args ex_adapter_args ex_env
           = ([], Inl (ValueError ''Need either a dataset name or a training/validation file.''))"
    by blast
  from at_lang both lang
  have 2: "main ex_model_args ?both ex_training_args ?lang ex_env
           = (LoadDataset (FromFiles ''json'' [(''train'', ''train.json''), (''validation'', ''dev.json'')])
                # ?loaded,
              Inl (ValueError (''Adapters can only be loaded in adapters training mode.''
                                @ ''Use --train_adapter to enable adapter training'')))"
    by blast
  from at_train train adapters_train eval
  have 3: "main ex_model_args ?train ex_training_args ex_adapter_args ex_env
           = ((LoadDataset (FromFiles ''json'' [(''train'', ''train.json'')]) # ?loaded)
                @ [] @ [MapDataset ''train''],
              Inl (ValueError ''--do_eval requires a validation dataset''))"
    by blast
  from at_both both adapters_both predict
  have 4: "main ex_model_args ?both ex_training_args ex_adapter_args ex_env
           = ((LoadDataset (FromFiles ''json'' [(''train'', ''train.json''), (''validation'', ''dev.json'')])
                 # ?loaded) @ [] @ [MapDataset ''train''] @ [MapDataset ''validation''],
              Inl (ValueError ''--do_predict requires a test dataset''))"
    by blast
  have member: "''--do_predict requires a test dataset''
      \<in> set [''Adapters can only be loaded in adapters training mode.''
                 @ ''Use --train_adapter to enable adapter training'',
               ''--do_eval requires a validation dataset'',
               ''--do_predict requires a test dataset'']"
    by simp
  from at_both 4 member
  have 5: "LoadModel \<in> set ((LoadDataset (FromFiles ''json'' [(''train'', ''train.json''), (''validation'', ''dev.json'')])
                 # ?loaded) @ [] @ [MapDataset ''train''] @ [MapDataset ''validation''])"
    by blast
  from 1 2 3 4 5 show ?thesis by (simp add: same [symmetric])
qed

section \<open>The metrics reducer: proofs\<close>

lemma comprehension_map_filter:
  "(\<And>x. x \<in> set xs \<Longrightarrow> c x \<Longrightarrow> f x = Inr (g x)) \<Longrightarrow>
     comprehension c f xs = Inr (map g (filter c xs))"
  by (induction xs) simp_all

lemma kept_predictions:
  assumes "list_all (\<lambda>(p, l). l = - 100 \<or>
              (0 \<le> p \<and> p < int (length label_list) \<and> 0 \<le> l \<and> l < int (length label_list))) pls"
  shows "comprehension (\<lambda>(p, l). l \<noteq> - 100) (\<lambda>(p, l). list_getitem label_list p) pls
           = Inr (map (\<lambda>(p, l). label_list ! nat p) (filter (\<lambda>(p, l). l \<noteq> - 100) pls))"
    and "comprehension (\<lambda>(p, l). l \<noteq> - 100) (\<lambda>(p, l). list_getitem label_list l) pls
           = Inr (map (\<lambda>(p, l). label_list ! nat l) (filter (\<lambda>(p, l). l \<noteq> - 100) pls))"
  using assms
  by (auto intro!: comprehension_map_filter simp: list_all_iff list_getitem_def)

text \<open>
  Claim C5. For inputs in range, \<open>compute_metrics\<close> calls the scorer on two lists that
  hold, example by example, the label names of the predictions and of the gold labels at
  exactly the positions whose gold label is not \<open>- 100\<close>, in order, and reports from
  the scorer's result on these lists. The two lists are \<open>true_predictions\<close> and
  \<open>true_labels\<close>; their entries for an example have the same length, the number of
  positions kept, and for an example whose gold labels are all \<open>- 100\<close> both are
  empty.
\<close>

theorem ignored_positions_removed:
  assumes ok: "indices_ok label_list predictions labels"
  shows "compute_metrics entity_level label_list scorer predictions labels =
           (let results =
                  scorer
                    (map (\<lambda>(prediction, label).
                       map (\<lambda>(p, l). label_list ! nat p)
                         (filter (\<lambda>(p, l). l \<noteq> - 100) (zip prediction label)))
                     (zip predictions labels))
                    (map (\<lambda>(prediction, label).
                       map (\<lambda>(p, l). label_list ! nat l)
                         (filter (\<lambda>(p, l). l \<noteq> - 100) (zip prediction label)))
                     (zip predictions labels))
            in if entity_level then Inr (unpack_results results [])
               else overall_results results)
       \<and> true_predictions label_list predictions labels =
           Inr (map (\<lambda>(prediction, label).
                  map (\<lambda>(p, l). label_list ! nat p)
                    (filter (\<lambda>(p, l). l \<noteq> - 100) (zip prediction label)))
                (zip predictions labels))
       \<and> true_labels label_list predictions labels =
           Inr (map (\<lambda>(prediction, label).
                  map (\<lambda>(p, l). label_list ! nat l)
                    (filter (\<lambda>(p, l). l \<noteq> - 100) (zip prediction label)))
                (zip predictions labels))
       \<and> (\<forall>preds refs k.
            true_predictions label_list predictions labels = Inr preds
          \<and> true_labels label_list predictions labels = Inr refs
          \<and> k < length predictions \<and> k < length labels
          \<longrightarrow> length (preds ! k) = length (refs ! k)
            \<and> length (preds ! k)
                = length (filter (\<lambda>l. l \<noteq> - 100) (take (length (predictions ! k)) (labels ! k)))
            \<and> ((\<forall>l \<in> set (labels ! k). l = - 100) \<longrightarrow> preds ! k = [] \<and> refs ! k = []))"
proof -
  let ?kept = "\<lambda>prediction label. filter (\<lambda>(p, l). l \<noteq> - 100) (zip prediction (label :: int list))"
  let ?P = "map (\<lambda>(prediction, label). map (\<lambda>(p, l). label_list ! nat p) (?kept prediction label))
              (zip predictions labels)"
  let ?L = "map (\<lambda>(prediction, label). map (\<lambda>(p, l). label_list ! nat l) (?kept prediction label))
              (zip predictions labels)"
  have tp: "true_predictions label_list predictions labels = Inr ?P"
    unfolding true_predictions_def
    using ok by (intro comprehension_map_filter [where c = "\<lambda>_. True", simplified])
      (auto simp: indices_ok_def list_all_iff kept_predictions(1))
  have tl: "true_labels label_list predictions labels = Inr ?L"
    unfolding true_labels_def
    using ok by (intro comprehension_map_filter [where c = "\<lambda>_. True", simplified])
      (auto simp: indices_ok_def list_all_iff kept_predictions(2))
  have at: "length (?P ! k) = length (?L ! k)
          \<and> length (?P ! k)
              = length (filter (\<lambda>l. l \<noteq> - 100) (take (length (predictions ! k)) (labels ! k)))
          \<and> ((\<forall>l \<in> set (labels ! k). l = - 100) \<longrightarrow> ?P ! k = [] \<and> ?L ! k = [])"
    if k: "k < length predictions" "k < length labels" for k
  proof -
    have cnt: "length (?kept prediction label)
                 = length (filter (\<lambda>l. l \<noteq> - 100) (take (length prediction) label))"
      for prediction :: "int list" and label
    proof -
      have "map snd (?kept prediction label) = filter (\<lambda>l. l \<noteq> - 100) (map snd (zip prediction label))"
        by (simp add: filter_map comp_def case_prod_unfold)
      then have "length (?kept prediction label)
                   = length (filter (\<lambda>l. l \<noteq> - 100) (map snd (zip prediction label)))"
        by (metis length_map)
      then show ?thesis by (simp add: map_snd_zip_take min_def take_all)
    qed
    have empty: "?kept prediction label = []" if "\<forall>l \<in> set label. l = - 100"
      for prediction :: "int list" and label
      using that by (auto simp: filter_empty_conv dest: set_zip_rightD)
    from k show ?thesis by (simp add: cnt empty)
  qed
  have scored: "compute_metrics entity_level label_list scorer predictions labels =
           (let results = scorer ?P ?L
            in if entity_level then Inr (unpack_results results [])
               else overall_results results)"
    by (simp add: compute_metrics_def tp tl)
  from tp tl at have rest: "true_predictions label_list predictions labels = Inr ?P
       \<and> true_labels label_list predictions labels = Inr ?L
       \<and> (\<forall>preds refs k.
            true_predictions label_list predictions labels = Inr preds
          \<and> true_labels label_list predictions labels = Inr refs
          \<and> k < length predictions \<and> k < length labels
          \<longrightarrow> length (preds ! k) = length (refs ! k)
            \<and> length (preds ! k)
                = length (filter (\<lambda>l. l \<noteq> - 100) (take (length (predictions ! k)) (labels ! k)))
            \<and> ((\<forall>l \<in> set (labels ! k). l = - 100) \<longrightarrow> preds ! k = [] \<and> refs ! k = []))"
    by auto
  from scored rest show ?thesis by (rule conjI)
qed

lemma ex_indices_ok: "indices_ok ex_label_list ex_predictions ex_labels"
  by (simp add: indices_ok_def ex_label_list_def ex_predictions_def ex_labels_def)

theorem ignored_positions_removed_witness:
  "indices_ok ex_label_list ex_predictions ex_labels
   \<and> true_predictions ex_label_list ex_predictions ex_labels = Inr [[''B-LOC'', ''I-LOC''], []]
   \<and> true_labels ex_label_list ex_predictions ex_labels = Inr [[''B-LOC'', ''O''], []]
   \<and> compute_metrics False ex_label_list ex_counting_scorer ex_predictions ex_labels
       = Inr [(''precision'', Scalar 2), (''recall'', Scalar 2), (''f1'', Scalar 2),
              (''accuracy'', Scalar 1)]"
  using ignored_positions_removed [OF ex_indices_ok, of False ex_counting_scorer] ex_indices_ok
  by (simp add: ex_label_list_def ex_predictions_def ex_labels_def ex_counting_scorer_def
      overall_results_def dict_getitem_def)








end
